theory Spec2Isabelle
  imports Main "HOL-Library.Sublist"
begin

section \<open>Values of the request and of the store\<close>

text \<open>
  Dates are JavaScript time values: whole milliseconds since the epoch, so \<open>int\<close>.
  A JSON value that a route only passes through (the \<open>sampleCheck\<close> object, the
  \<open>metadata\<close> of an entry, which the schemas declare as \<open>Mixed\<close>) is a \<open>jsval\<close>.
\<close>

datatype jsval =
    JUndefined
  | JNull
  | JBool bool
  | JNum int
  | JStr string
  | JArr "jsval list"
  | JObj "(string \<times> jsval) list"

text \<open>\<open>UserRole\<close> of types/index.ts.\<close>

datatype UserRole = Admin | Vendor | DepotStaff | TrackWorker | Inspector

fun roleName :: "UserRole \<Rightarrow> string" where
  "roleName Admin = ''admin''"
| "roleName Vendor = ''vendor''"
| "roleName DepotStaff = ''depot-staff''"
| "roleName TrackWorker = ''track-worker''"
| "roleName Inspector = ''inspector''"

text \<open>models/Lot.ts: \<open>AuditEntry\<close>, \<open>QrToken\<close> and \<open>ILot\<close>. The unique \<open>id\<close> of a
  document is the key under which the store holds it, so it is not a field here.\<close>

record AuditEntry =
  timestamp :: int
  actorId :: string
  actorName :: string
  action :: string
  details :: string
  metadata :: "(string \<times> jsval) list"

record QrToken =
  token :: string
  generatedAt :: int
  expiresAt :: int
  generatedBy :: string

record Lot =
  partName :: string
  factoryName :: string
  lotNumber :: string
  supplyDate :: int
  manufacturingDate :: int
  warrantyPeriod :: string
  status :: string
  vendorId :: string
  qrCode :: "string option"
  auditTrail :: "AuditEntry list"
  qrTokens :: "QrToken list"
  createdAt :: int
  updatedAt :: int

text \<open>models/User.ts: \<open>UserHistoryEntry\<close> and the fields of \<open>IUser\<close> that the routes
  read or write (the credentials are left out).\<close>

record UserHistoryEntry =
  timestamp_h :: int
  action_h :: string
  targetType :: string
  targetId :: string
  details_h :: string
  metadata_h :: "(string \<times> jsval) list"

record User =
  firstName :: string
  lastName :: string
  role :: UserRole
  history :: "UserHistoryEntry list"
  updatedAt_u :: int

text \<open>\<open>IReplacementRequest\<close>; the review fields stay unset on creation.\<close>

record ReplacementRequest =
  lotId :: string
  partId :: "string option"
  requestedBy :: string
  requestedByRole :: UserRole
  reason :: string
  description :: string
  photos :: "string list"
  status_rr :: string
  reviewedBy :: "string option"
  reviewedAt :: "int option"
  reviewNotes :: "string option"
  priority :: string
  createdAt_rr :: "int option"
  updatedAt_rr :: "int option"

text \<open>The three collections, each keyed by the unique \<open>id\<close> of its documents.\<close>

record Db =
  lots :: "string \<rightharpoonup> Lot"
  users :: "string \<rightharpoonup> User"
  requests :: "string \<rightharpoonup> ReplacementRequest"

text \<open>
  What a handler takes from outside the program.  \<open>clock k\<close> is the time read at the
  \<open>k\<close>-th place of the handler that reads the clock (\<open>new Date()\<close>, \<open>Date.now()\<close>, and
  the \<open>timestamps\<close> option of a schema at each save), counted in the order of the text.
  The \<open>...SaveOk\<close> flags say whether the database accepts the write; library functions
  the routes call are parameters (\<open>stringTrim\<close> is \<open>String.prototype.trim\<close>, which the
  \<open>trim\<close> option of a schema applies).
\<close>

record Env =
  clock :: "nat \<Rightarrow> int"
  uuidv4 :: string
  jwtSecretSet :: bool
  jwtVerify :: "string \<Rightarrow> string option"
  toISOString :: "int \<Rightarrow> string"
  jsonStringify :: "jsval \<Rightarrow> string"
  stringTrim :: "string \<Rightarrow> string"
  toDataURL :: "string \<Rightarrow> string option"
  lotSaveOk :: bool
  userSaveOk :: bool
  requestSaveOk :: bool

text \<open>
  A request: the bearer token of the Authorization header, the \<open>:lotId\<close> parameter, the
  \<open>token\<close> of the query string and the fields of the JSON body.  A body field that a
  route treats as text is \<open>None\<close> when absent and \<open>Some s\<close> when it is the string \<open>s\<close>.
  A string is the list of the UTF-8 bytes of the text.
\<close>

record Request =
  bearer :: "string option"
  lotIdParam :: string
  queryToken :: "string option"
  body_status :: "string option"
  body_notes :: "string option"
  body_sampleCheck :: jsval
  body_location :: "string option"
  body_section :: "string option"
  body_installationDate :: "string option"
  body_condition :: "string option"
  body_photos :: "string list option"
  body_nextInspectionDue :: "string option"
  body_reason :: "string option"
  body_description :: "string option"
  body_priority :: "string option"

datatype Payload =
    NoData
  | LotData string Lot
  | RequestData string ReplacementRequest
  | QrData string string string string string

record Response =
  code :: nat
  success :: bool
  message :: string
  payload :: Payload

section \<open>JavaScript idioms\<close>

text \<open>\<open>!x\<close> on a string or undefined: undefined and the empty string are falsy.\<close>

definition truthy :: "string option \<Rightarrow> bool" where
  "truthy x = (case x of None \<Rightarrow> False | Some s \<Rightarrow> s \<noteq> [])"

definition optStr :: "string option \<Rightarrow> jsval" where
  "optStr x = (case x of None \<Rightarrow> JUndefined | Some s \<Rightarrow> JStr s)"

text \<open>\<open>photos || []\<close>.\<close>

definition photosOrEmpty :: "string list option \<Rightarrow> string list" where
  "photosOrEmpty x = (case x of None \<Rightarrow> [] | Some ps \<Rightarrow> ps)"

text \<open>\<open>toUpperCase\<close>, on the ASCII range (the identifiers of lots, users and requests
  are ASCII).\<close>

definition upperChar :: "char \<Rightarrow> char" where
  "upperChar c =
     (case map_of (zip ''abcdefghijklmnopqrstuvwxyz'' ''ABCDEFGHIJKLMNOPQRSTUVWXYZ'') c of
        None \<Rightarrow> c
      | Some C \<Rightarrow> C)"

definition toUpperCase :: "string \<Rightarrow> string" where
  "toUpperCase s = map upperChar s"

text \<open>
  \<open>String.prototype.trim\<close> on text held as its UTF-8 bytes (the form in which the body
  arrives and the database stores it): it removes, at both ends, the white space and
  line terminators of ECMAScript, that is U+0009 to U+000D, U+0020, U+00A0, U+1680,
  U+2000 to U+200A, U+2028, U+2029, U+202F, U+205F, U+3000 and U+FEFF.
\<close>

definition whiteSpace :: "string list" where
  "whiteSpace =
     [[CHR 0x09], [CHR 0x0A], [CHR 0x0B], [CHR 0x0C], [CHR 0x0D], [CHR 0x20],
      [CHR 0xC2, CHR 0xA0],
      [CHR 0xE1, CHR 0x9A, CHR 0x80],
      [CHR 0xE2, CHR 0x80, CHR 0x80], [CHR 0xE2, CHR 0x80, CHR 0x81],
      [CHR 0xE2, CHR 0x80, CHR 0x82], [CHR 0xE2, CHR 0x80, CHR 0x83],
      [CHR 0xE2, CHR 0x80, CHR 0x84], [CHR 0xE2, CHR 0x80, CHR 0x85],
      [CHR 0xE2, CHR 0x80, CHR 0x86], [CHR 0xE2, CHR 0x80, CHR 0x87],
      [CHR 0xE2, CHR 0x80, CHR 0x88], [CHR 0xE2, CHR 0x80, CHR 0x89],
      [CHR 0xE2, CHR 0x80, CHR 0x8A],
      [CHR 0xE2, CHR 0x80, CHR 0xA8], [CHR 0xE2, CHR 0x80, CHR 0xA9],
      [CHR 0xE2, CHR 0x80, CHR 0xAF],
      [CHR 0xE2, CHR 0x81, CHR 0x9F],
      [CHR 0xE3, CHR 0x80, CHR 0x80],
      [CHR 0xEF, CHR 0xBB, CHR 0xBF]]"

function dropLeading :: "string list \<Rightarrow> string \<Rightarrow> string" where
  "dropLeading ws s =
     (case find (\<lambda>w. w \<noteq> [] \<and> prefix w s) ws of
        None \<Rightarrow> s
      | Some w \<Rightarrow> dropLeading ws (drop (length w) s))"
  by pat_completeness auto
termination
  by (relation "measure (\<lambda>(ws, s). length s)") (auto simp: find_Some_iff prefix_def)

declare dropLeading.simps [simp del]

definition dropTrailing :: "string list \<Rightarrow> string \<Rightarrow> string" where
  "dropTrailing ws s = rev (dropLeading (map rev ws) (rev s))"

definition trim :: "string \<Rightarrow> string" where
  "trim s = dropTrailing whiteSpace (dropLeading whiteSpace s)"

text \<open>\<open>roles.join(', ')\<close>.\<close>

fun join :: "string \<Rightarrow> string list \<Rightarrow> string" where
  "join sep [] = []"
| "join sep [x] = x"
| "join sep (x # y # ys) = x @ sep @ join sep (y # ys)"

definition failure :: "nat \<Rightarrow> string \<Rightarrow> Response" where
  "failure c m = \<lparr>code = c, success = False, message = m, payload = NoData\<rparr>"

definition ok :: "nat \<Rightarrow> string \<Rightarrow> Payload \<Rightarrow> Response" where
  "ok c m d = \<lparr>code = c, success = True, message = m, payload = d\<rparr>"

section \<open>middleware/auth: authenticate and authorize\<close>

text \<open>\<open>authenticate\<close> yields \<open>req.user\<close>: the identifier decoded from the bearer token and
  the user document found under it, or the response that ends the request.\<close>

definition authenticate :: "Env \<Rightarrow> Db \<Rightarrow> Request \<Rightarrow> Response + (string \<times> User)" where
  "authenticate env db req =
     (if \<not> truthy (bearer req) then Inl (failure 401 ''Access denied. No token provided.'')
      else if \<not> jwtSecretSet env then Inl (failure 500 ''Server configuration error.'')
      else case jwtVerify env (the (bearer req)) of
             None \<Rightarrow> Inl (failure 401 ''Invalid token.'')
           | Some uid \<Rightarrow>
               (case users db uid of
                  None \<Rightarrow> Inl (failure 401 ''Invalid token. User not found.'')
                | Some u \<Rightarrow> Inr (uid, u)))"

text \<open>\<open>authorize(...roles)\<close>: \<open>None\<close> is \<open>next()\<close>.\<close>

definition authorize :: "UserRole list \<Rightarrow> User \<Rightarrow> Response option" where
  "authorize roles u =
     (if role u \<notin> set roles
      then Some (failure 403 (''Access denied. Required roles: '' @ join '', '' (map roleName roles)
                  @ ''. Your role: '' @ roleName (role u) @ ''.''))
      else None)"

section \<open>Saving documents\<close>

text \<open>\<open>doc.save()\<close>: rejected when the database refuses the write; the \<open>timestamps\<close>
  option of the schema stamps \<open>updatedAt\<close> with the time of the save.  A rejected save
  throws, and the \<open>catch\<close> of the route answers 500.  \<open>findOne\<close> is a lookup by key; a
  read that the database refuses is not modelled.\<close>

definition saveLot :: "Env \<Rightarrow> int \<Rightarrow> Db \<Rightarrow> string \<Rightarrow> Lot \<Rightarrow> Db option" where
  "saveLot env t db k lot =
     (if lotSaveOk env then Some (db\<lparr>lots := (lots db)(k \<mapsto> lot\<lparr>updatedAt := t\<rparr>)\<rparr>) else None)"

definition saveUser :: "Env \<Rightarrow> int \<Rightarrow> Db \<Rightarrow> string \<Rightarrow> User \<Rightarrow> Db option" where
  "saveUser env t db k u =
     (if userSaveOk env then Some (db\<lparr>users := (users db)(k \<mapsto> u\<lparr>updatedAt_u := t\<rparr>)\<rparr>) else None)"

section \<open>routes/ephemeralQr.ts\<close>

definition DAY_MS :: int where
  "DAY_MS = 24 * 60 * 60 * 1000"

text \<open>POST /:lotId/generate-qr, the handler behind \<open>authenticate, authorize('vendor')\<close>.\<close>

definition generateQrHandler :: "Env \<Rightarrow> Db \<Rightarrow> string \<times> User \<Rightarrow> Request \<Rightarrow> Response \<times> Db" where
  "generateQrHandler env db ru req =
     (let userId = fst ru; k = toUpperCase (lotIdParam req) in
      case lots db k of
        None \<Rightarrow> (failure 404 ''Lot not found'', db)
      | Some lot \<Rightarrow>
          if vendorId lot \<noteq> userId
          then (failure 403 ''Access denied. You can only generate QR codes for your own lots.'', db)
          else
            let qrData = JObj
                  [(''type'', JStr ''lot''),
                   (''lotId'', JStr k),
                   (''partName'', JStr (partName lot)),
                   (''factoryName'', JStr (factoryName lot)),
                   (''lotNumber'', JStr (lotNumber lot)),
                   (''manufacturingDate'', JStr (toISOString env (manufacturingDate lot))),
                   (''supplyDate'', JStr (toISOString env (supplyDate lot))),
                   (''warrantyPeriod'', JStr (warrantyPeriod lot)),
                   (''createdAt'', JStr (toISOString env (createdAt lot)))];
                qrToken = take 8 (uuidv4 env);
                expires = clock env 0 + DAY_MS;
                qrString = jsonStringify env qrData
            in case toDataURL env qrString of
                 None \<Rightarrow> (failure 500 ''Server error generating QR code'', db)
               | Some qrImageDataUrl \<Rightarrow>
                   let lot1 = lot\<lparr>qrTokens := qrTokens lot @
                                [\<lparr>token = qrToken, generatedAt = clock env 1,
                                  expiresAt = expires, generatedBy = userId\<rparr>]\<rparr>;
                       lot2 = lot1\<lparr>auditTrail := auditTrail lot1 @
                                [\<lparr>timestamp = clock env 2, actorId = userId,
                                  actorName = firstName (snd ru) @ '' '' @ lastName (snd ru),
                                  action = ''qr_generated'',
                                  details = ''Ephemeral QR code generated for lot'',
                                  metadata = [(''qrToken'', JStr qrToken),
                                              (''expiresAt'', JStr (toISOString env expires))]\<rparr>]\<rparr>;
                       reply = ok 200 ''Ephemeral QR code generated successfully''
                                 (QrData k qrString qrImageDataUrl qrToken (toISOString env expires))
                   in case saveLot env (clock env 3) db k lot2 of
                        None \<Rightarrow> (failure 500 ''Server error generating QR code'', db)
                      | Some db1 \<Rightarrow>
                          (case users db1 userId of
                             None \<Rightarrow> (reply, db1)
                           | Some user \<Rightarrow>
                               (case saveUser env (clock env 5) db1 userId
                                       (user\<lparr>history := history user @
                                          [\<lparr>timestamp_h = clock env 4,
                                            action_h = ''generate_qr'',
                                            targetType = ''lot'',
                                            targetId = k,
                                            details_h = ''Generated QR code for lot '' @ lotNumber lot2,
                                            metadata_h = [(''qrToken'', JStr qrToken),
                                                          (''expiresAt'', JStr (toISOString env expires))]\<rparr>]\<rparr>) of
                                  None \<Rightarrow> (failure 500 ''Server error generating QR code'', db1)
                                | Some db2 \<Rightarrow> (reply, db2))))"

definition generateQr :: "Env \<Rightarrow> Db \<Rightarrow> Request \<Rightarrow> Response \<times> Db" where
  "generateQr env db req =
     (case authenticate env db req of
        Inl r \<Rightarrow> (r, db)
      | Inr ru \<Rightarrow>
          (case authorize [Vendor] (snd ru) of
             Some r \<Rightarrow> (r, db)
           | None \<Rightarrow> generateQrHandler env db ru req))"

text \<open>GET /:lotId, lines 145 to 159: the check of a presented token against the lot.
  \<open>None\<close> lets the request through.\<close>

definition checkToken :: "Lot \<Rightarrow> string \<Rightarrow> int \<Rightarrow> Response option" where
  "checkToken lot tok now =
     (case find (\<lambda>t. token t = tok) (qrTokens lot) of
        None \<Rightarrow> Some (failure 401 ''Invalid QR token'')
      | Some qrToken \<Rightarrow>
          if now > expiresAt qrToken then Some (failure 401 ''QR token has expired'') else None)"

text \<open>Lines 161 to 168: the access control applied when no token is presented.\<close>

definition regularAccess :: "string \<times> User \<Rightarrow> Lot \<Rightarrow> Response option" where
  "regularAccess ru lot =
     (if role (snd ru) = Vendor \<and> vendorId lot \<noteq> fst ru
      then Some (failure 403 ''Access denied'') else None)"

definition getLotHandler :: "Env \<Rightarrow> Db \<Rightarrow> string \<times> User \<Rightarrow> Request \<Rightarrow> Response \<times> Db" where
  "getLotHandler env db ru req =
     (let k = toUpperCase (lotIdParam req) in
      case lots db k of
        None \<Rightarrow> (failure 404 ''Lot not found'', db)
      | Some lot \<Rightarrow>
          (case (if truthy (queryToken req)
                 then checkToken lot (the (queryToken req)) (clock env 0)
                 else regularAccess ru lot) of
             Some r \<Rightarrow> (r, db)
           | None \<Rightarrow> (ok 200 ''Lot retrieved successfully'' (LotData k lot), db)))"

definition getLot :: "Env \<Rightarrow> Db \<Rightarrow> Request \<Rightarrow> Response \<times> Db" where
  "getLot env db req =
     (case authenticate env db req of
        Inl r \<Rightarrow> (r, db)
      | Inr ru \<Rightarrow> getLotHandler env db ru req)"

section \<open>routes/users.ts (backend/routes/lotRoutes.ts): PUT /:id/status\<close>

definition lotStatuses :: "string list" where
  "lotStatuses = [''pending'', ''verified'', ''rejected'', ''accepted'', ''held'']"

text \<open>The handler behind \<open>authenticate, authorize('depot-staff')\<close>.  The entry of the
  user's history is built after \<open>lot.status\<close> has been assigned, and reads it again.\<close>

definition updateStatusHandler :: "Env \<Rightarrow> Db \<Rightarrow> string \<times> User \<Rightarrow> Request \<Rightarrow> Response \<times> Db" where
  "updateStatusHandler env db ru req =
     (let userId = fst ru in
      if body_status req \<notin> Some ` set lotStatuses
      then (failure 400 ''Invalid status'', db)
      else
        let newStatus = the (body_status req); k = toUpperCase (lotIdParam req) in
        case lots db k of
          None \<Rightarrow> (failure 404 ''Lot not found'', db)
        | Some lot \<Rightarrow>
            let lot1 = lot\<lparr>auditTrail := auditTrail lot @
                         [\<lparr>timestamp = clock env 0, actorId = userId,
                           actorName = firstName (snd ru) @ '' '' @ lastName (snd ru),
                           action = ''status_updated'',
                           details = ''Status changed from '' @ status lot @ '' to '' @ newStatus,
                           metadata = [(''previousStatus'', JStr (status lot)),
                                       (''newStatus'', JStr newStatus),
                                       (''notes'', optStr (body_notes req)),
                                       (''sampleCheck'', body_sampleCheck req)]\<rparr>]\<rparr>;
                lot2 = lot1\<lparr>status := newStatus\<rparr>;
                lot3 = lot2\<lparr>updatedAt := clock env 1\<rparr>
            in case saveLot env (clock env 2) db k lot3 of
                 None \<Rightarrow> (failure 500 ''Server error updating lot status'', db)
               | Some db1 \<Rightarrow>
                   let reply = ok 200 ''Lot status updated successfully''
                                 (LotData k (lot3\<lparr>updatedAt := clock env 2\<rparr>))
                   in (case users db1 userId of
                         None \<Rightarrow> (reply, db1)
                       | Some user \<Rightarrow>
                           (case saveUser env (clock env 4) db1 userId
                                   (user\<lparr>history := history user @
                                      [\<lparr>timestamp_h = clock env 3,
                                        action_h = ''update_lot_status'',
                                        targetType = ''lot'',
                                        targetId = k,
                                        details_h = ''Updated lot '' @ lotNumber lot3 @ '' status to '' @ newStatus,
                                        metadata_h = [(''previousStatus'', JStr (status lot3)),
                                                      (''newStatus'', JStr newStatus),
                                                      (''notes'', optStr (body_notes req)),
                                                      (''sampleCheck'', body_sampleCheck req)]\<rparr>]\<rparr>) of
                              None \<Rightarrow> (failure 500 ''Server error updating lot status'', db1)
                            | Some db2 \<Rightarrow> (reply, db2))))"

definition updateStatus :: "Env \<Rightarrow> Db \<Rightarrow> Request \<Rightarrow> Response \<times> Db" where
  "updateStatus env db req =
     (case authenticate env db req of
        Inl r \<Rightarrow> (r, db)
      | Inr ru \<Rightarrow>
          (case authorize [DepotStaff] (snd ru) of
             Some r \<Rightarrow> (r, db)
           | None \<Rightarrow> updateStatusHandler env db ru req))"

section \<open>routes/lotWorkflows.ts\<close>

text \<open>\<open>installationDate || new Date().toISOString()\<close>, read at clock place \<open>k\<close>.\<close>

definition installationDateOr :: "Env \<Rightarrow> nat \<Rightarrow> Request \<Rightarrow> jsval" where
  "installationDateOr env k req =
     (if truthy (body_installationDate req) then JStr (the (body_installationDate req))
      else JStr (toISOString env (clock env k)))"

text \<open>POST /:lotId/install, behind \<open>authorize('track-worker')\<close>.\<close>

definition installHandler :: "Env \<Rightarrow> Db \<Rightarrow> string \<times> User \<Rightarrow> Request \<Rightarrow> Response \<times> Db" where
  "installHandler env db ru req =
     (let userId = fst ru in
      if \<not> truthy (body_location req) \<or> \<not> truthy (body_section req)
      then (failure 400 ''Location and section are required'', db)
      else
        let location = the (body_location req); sect = the (body_section req);
            k = toUpperCase (lotIdParam req) in
        case lots db k of
          None \<Rightarrow> (failure 404 ''Lot not found'', db)
        | Some lot \<Rightarrow>
            let lot1 = lot\<lparr>auditTrail := auditTrail lot @
                         [\<lparr>timestamp = clock env 0, actorId = userId,
                           actorName = firstName (snd ru) @ '' '' @ lastName (snd ru),
                           action = ''installation_recorded'',
                           details = ''Installation recorded at '' @ location @ '', '' @ sect,
                           metadata = [(''location'', JStr location),
                                       (''section'', JStr sect),
                                       (''installationDate'', installationDateOr env 1 req),
                                       (''notes'', optStr (body_notes req))]\<rparr>]\<rparr>
            in case saveLot env (clock env 2) db k lot1 of
                 None \<Rightarrow> (failure 500 ''Server error recording installation'', db)
               | Some db1 \<Rightarrow>
                   let reply = ok 200 ''Installation recorded successfully''
                                 (LotData k (lot1\<lparr>updatedAt := clock env 2\<rparr>))
                   in (case users db1 userId of
                         None \<Rightarrow> (reply, db1)
                       | Some user \<Rightarrow>
                           (case saveUser env (clock env 5) db1 userId
                                   (user\<lparr>history := history user @
                                      [\<lparr>timestamp_h = clock env 3,
                                        action_h = ''install_lot'',
                                        targetType = ''lot'',
                                        targetId = k,
                                        details_h = ''Installed lot '' @ lotNumber lot1 @ '' at '' @ location,
                                        metadata_h = [(''location'', JStr location),
                                                      (''section'', JStr sect),
                                                      (''installationDate'', installationDateOr env 4 req),
                                                      (''notes'', optStr (body_notes req))]\<rparr>]\<rparr>) of
                              None \<Rightarrow> (failure 500 ''Server error recording installation'', db1)
                            | Some db2 \<Rightarrow> (reply, db2))))"

definition install :: "Env \<Rightarrow> Db \<Rightarrow> Request \<Rightarrow> Response \<times> Db" where
  "install env db req =
     (case authenticate env db req of
        Inl r \<Rightarrow> (r, db)
      | Inr ru \<Rightarrow>
          (case authorize [TrackWorker] (snd ru) of
             Some r \<Rightarrow> (r, db)
           | None \<Rightarrow> installHandler env db ru req))"

definition conditions :: "string list" where
  "conditions = [''good'', ''worn'', ''replace'']"

text \<open>POST /:lotId/inspection, behind \<open>authorize('inspector')\<close>.\<close>

definition inspectionHandler :: "Env \<Rightarrow> Db \<Rightarrow> string \<times> User \<Rightarrow> Request \<Rightarrow> Response \<times> Db" where
  "inspectionHandler env db ru req =
     (let userId = fst ru in
      if \<not> truthy (body_condition req) \<or> body_condition req \<notin> Some ` set conditions
      then (failure 400 ''Valid condition is required (good, worn, replace)'', db)
      else
        let condition = the (body_condition req); k = toUpperCase (lotIdParam req) in
        case lots db k of
          None \<Rightarrow> (failure 404 ''Lot not found'', db)
        | Some lot \<Rightarrow>
            let lot1 = lot\<lparr>auditTrail := auditTrail lot @
                         [\<lparr>timestamp = clock env 0, actorId = userId,
                           actorName = firstName (snd ru) @ '' '' @ lastName (snd ru),
                           action = ''inspection_recorded'',
                           details = ''Inspection completed - condition: '' @ condition,
                           metadata = [(''condition'', JStr condition),
                                       (''notes'', optStr (body_notes req)),
                                       (''photos'', JArr (map JStr (photosOrEmpty (body_photos req)))),
                                       (''nextInspectionDue'', optStr (body_nextInspectionDue req)),
                                       (''inspectionDate'', JStr (toISOString env (clock env 1)))]\<rparr>]\<rparr>
            in case saveLot env (clock env 2) db k lot1 of
                 None \<Rightarrow> (failure 500 ''Server error recording inspection'', db)
               | Some db1 \<Rightarrow>
                   let reply = ok 200 ''Inspection recorded successfully''
                                 (LotData k (lot1\<lparr>updatedAt := clock env 2\<rparr>))
                   in (case users db1 userId of
                         None \<Rightarrow> (reply, db1)
                       | Some user \<Rightarrow>
                           (case saveUser env (clock env 5) db1 userId
                                   (user\<lparr>history := history user @
                                      [\<lparr>timestamp_h = clock env 3,
                                        action_h = ''inspect_lot'',
                                        targetType = ''lot'',
                                        targetId = k,
                                        details_h = ''Inspected lot '' @ lotNumber lot1 @ '' - condition: '' @ condition,
                                        metadata_h = [(''condition'', JStr condition),
                                                      (''notes'', optStr (body_notes req)),
                                                      (''photos'', JArr (map JStr (photosOrEmpty (body_photos req)))),
                                                      (''nextInspectionDue'', optStr (body_nextInspectionDue req)),
                                                      (''inspectionDate'', JStr (toISOString env (clock env 4)))]\<rparr>]\<rparr>) of
                              None \<Rightarrow> (failure 500 ''Server error recording inspection'', db1)
                            | Some db2 \<Rightarrow> (reply, db2))))"

definition inspection :: "Env \<Rightarrow> Db \<Rightarrow> Request \<Rightarrow> Response \<times> Db" where
  "inspection env db req =
     (case authenticate env db req of
        Inl r \<Rightarrow> (r, db)
      | Inr ru \<Rightarrow>
          (case authorize [Inspector] (snd ru) of
             Some r \<Rightarrow> (r, db)
           | None \<Rightarrow> inspectionHandler env db ru req))"

text \<open>models/ReplacementRequest.ts.  \<open>Date.now().toString()\<close> is the decimal numeral.\<close>

definition digitChar :: "nat \<Rightarrow> char" where
  "digitChar d = ''0123456789'' ! d"

function natToString :: "nat \<Rightarrow> string" where
  "natToString n = (if n < 10 then [digitChar n] else natToString (n div 10) @ [digitChar (n mod 10)])"
  by pat_completeness auto
termination
  by (relation "measure id") auto

definition intToString :: "int \<Rightarrow> string" where
  "intToString i = (if i < 0 then CHR ''-'' # natToString (nat (- i)) else natToString (nat i))"

definition generateReplacementRequestId :: "Env \<Rightarrow> nat \<Rightarrow> string" where
  "generateReplacementRequestId env k = ''REQ'' @ intToString (clock env k)"

definition reasons :: "string list" where
  "reasons = [''defective'', ''damaged'', ''worn'', ''expired'', ''incorrect_spec'', ''other'']"

definition priorities :: "string list" where
  "priorities = [''low'', ''medium'', ''high'', ''urgent'']"

definition requestStatuses :: "string list" where
  "requestStatuses = [''pending'', ''approved'', ''rejected'', ''completed'']"

text \<open>The validation that \<open>save()\<close> runs against \<open>replacementRequestSchema\<close>: the
  \<open>required\<close> paths are non-empty and the \<open>enum\<close> paths hold one of their values.\<close>

definition validRequest :: "string \<Rightarrow> ReplacementRequest \<Rightarrow> bool" where
  "validRequest rid r =
     (rid \<noteq> [] \<and> lotId r \<noteq> [] \<and> requestedBy r \<noteq> []
      \<and> requestedByRole r \<in> {TrackWorker, Inspector}
      \<and> reason r \<noteq> [] \<and> reason r \<in> set reasons
      \<and> description r \<noteq> []
      \<and> status_rr r \<in> set requestStatuses
      \<and> priority r \<in> set priorities)"

text \<open>\<open>replacementRequest.save()\<close> of a new document: rejected when validation fails,
  when the database refuses the write, or when the unique index on \<open>id\<close> already holds
  the identifier; \<open>timestamps\<close> sets both dates.\<close>

definition saveRequest :: "Env \<Rightarrow> int \<Rightarrow> Db \<Rightarrow> string \<Rightarrow> ReplacementRequest \<Rightarrow> Db option" where
  "saveRequest env t db rid r =
     (if \<not> validRequest rid r \<or> \<not> requestSaveOk env \<or> requests db rid \<noteq> None then None
      else Some (db\<lparr>requests := (requests db)(rid \<mapsto> r\<lparr>createdAt_rr := Some t, updatedAt_rr := Some t\<rparr>)\<rparr>))"

text \<open>POST /:lotId/replacement-request, behind \<open>authorize('track-worker', 'inspector')\<close>.
  The constructor applies the setters of the schema: \<open>uppercase\<close> on \<open>id\<close>, \<open>trim\<close> on
  \<open>description\<close>.\<close>

definition replacementRequestHandler :: "Env \<Rightarrow> Db \<Rightarrow> string \<times> User \<Rightarrow> Request \<Rightarrow> Response \<times> Db" where
  "replacementRequestHandler env db ru req =
     (let userId = fst ru in
      if \<not> truthy (body_reason req) \<or> \<not> truthy (body_description req)
      then (failure 400 ''Reason and description are required'', db)
      else
        let reason' = the (body_reason req); description' = the (body_description req);
            priority' = (case body_priority req of None \<Rightarrow> ''medium'' | Some p \<Rightarrow> p);
            k = toUpperCase (lotIdParam req) in
        case lots db k of
          None \<Rightarrow> (failure 404 ''Lot not found'', db)
        | Some lot \<Rightarrow>
            let rid = toUpperCase (generateReplacementRequestId env 0);
                replacementRequest =
                  \<lparr>lotId = k, partId = None, requestedBy = userId,
                   requestedByRole = role (snd ru), reason = reason',
                   description = stringTrim env description',
                   photos = photosOrEmpty (body_photos req), status_rr = ''pending'',
                   reviewedBy = None, reviewedAt = None, reviewNotes = None,
                   priority = priority', createdAt_rr = None, updatedAt_rr = None\<rparr>
            in case saveRequest env (clock env 1) db rid replacementRequest of
                 None \<Rightarrow> (failure 500 ''Server error creating replacement request'', db)
               | Some db1 \<Rightarrow>
                   let lot1 = lot\<lparr>auditTrail := auditTrail lot @
                                [\<lparr>timestamp = clock env 2, actorId = userId,
                                  actorName = firstName (snd ru) @ '' '' @ lastName (snd ru),
                                  action = ''replacement_requested'',
                                  details = ''Replacement request created - reason: '' @ reason',
                                  metadata = [(''requestId'', JStr rid),
                                              (''reason'', JStr reason'),
                                              (''description'', JStr description'),
                                              (''priority'', JStr priority'),
                                              (''photos'', JArr (map JStr (photosOrEmpty (body_photos req))))]\<rparr>]\<rparr>
                   in case saveLot env (clock env 3) db1 k lot1 of
                        None \<Rightarrow> (failure 500 ''Server error creating replacement request'', db1)
                      | Some db2 \<Rightarrow>
                          let reply = ok 201 ''Replacement request created successfully''
                                        (RequestData rid
                                           (replacementRequest\<lparr>createdAt_rr := Some (clock env 1),
                                                               updatedAt_rr := Some (clock env 1)\<rparr>))
                          in (case users db2 userId of
                                None \<Rightarrow> (reply, db2)
                              | Some user \<Rightarrow>
                                  (case saveUser env (clock env 5) db2 userId
                                          (user\<lparr>history := history user @
                                             [\<lparr>timestamp_h = clock env 4,
                                               action_h = ''request_replacement'',
                                               targetType = ''lot'',
                                               targetId = k,
                                               details_h = ''Requested replacement for lot '' @ lotNumber lot1,
                                               metadata_h = [(''requestId'', JStr rid),
                                                             (''reason'', JStr reason'),
                                                             (''description'', JStr description'),
                                                             (''priority'', JStr priority'),
                                                             (''photos'', JArr (map JStr (photosOrEmpty (body_photos req))))]\<rparr>]\<rparr>) of
                                     None \<Rightarrow> (failure 500 ''Server error creating replacement request'', db2)
                                   | Some db3 \<Rightarrow> (reply, db3))))"

definition replacementRequest :: "Env \<Rightarrow> Db \<Rightarrow> Request \<Rightarrow> Response \<times> Db" where
  "replacementRequest env db req =
     (case authenticate env db req of
        Inl r \<Rightarrow> (r, db)
      | Inr ru \<Rightarrow>
          (case authorize [TrackWorker, Inspector] (snd ru) of
             Some r \<Rightarrow> (r, db)
           | None \<Rightarrow> replacementRequestHandler env db ru req))"

section \<open>The operations of the engine, one request after another\<close>

datatype Operation = OpGenerateQr | OpUpdateStatus | OpInstall | OpInspection | OpReplacementRequest

fun perform :: "Operation \<Rightarrow> Env \<Rightarrow> Db \<Rightarrow> Request \<Rightarrow> Response \<times> Db" where
  "perform OpGenerateQr env db req = generateQr env db req"
| "perform OpUpdateStatus env db req = updateStatus env db req"
| "perform OpInstall env db req = install env db req"
| "perform OpInspection env db req = inspection env db req"
| "perform OpReplacementRequest env db req = replacementRequest env db req"

fun performAll :: "(Operation \<times> Env \<times> Request) list \<Rightarrow> Db \<Rightarrow> Db" where
  "performAll [] db = db"
| "performAll ((opn, env, req) # rest) db = performAll rest (snd (perform opn env db req))"


section \<open>A small store for the closed examples\<close>

definition exampleUser :: "string \<Rightarrow> UserRole \<Rightarrow> User" where
  "exampleUser n r = \<lparr>firstName = ''Test'', lastName = n, role = r, history = [], updatedAt_u = 0\<rparr>"

definition exampleLot :: Lot where
  "exampleLot =
     \<lparr>partName = ''Rail Clip'', factoryName = ''Test Factory'', lotNumber = ''TEST001'',
      supplyDate = 0, manufacturingDate = 0, warrantyPeriod = ''5 years'',
      status = ''pending'', vendorId = ''V1'', qrCode = None,
      auditTrail = [], qrTokens = [], createdAt = 0, updatedAt = 0\<rparr>"

definition exampleDb :: Db where
  "exampleDb =
     \<lparr>lots = [''LOT001'' \<mapsto> exampleLot],
      users = [''V1'' \<mapsto> exampleUser ''Vendor'' Vendor,
               ''V2'' \<mapsto> exampleUser ''Other'' Vendor,
               ''D1'' \<mapsto> exampleUser ''Depot'' DepotStaff,
               ''T1'' \<mapsto> exampleUser ''Worker'' TrackWorker,
               ''I1'' \<mapsto> exampleUser ''Inspector'' Inspector,
               ''A1'' \<mapsto> exampleUser ''Admin'' Admin],
      requests = Map.empty\<rparr>"

text \<open>In the example environment a bearer token decodes to itself, the clock reads
  1000, 1001, ... and every write is accepted.\<close>

definition exampleEnv :: Env where
  "exampleEnv =
     \<lparr>clock = (\<lambda>k. 1000 + int k),
      uuidv4 = ''9b2f6c1e-5d3a-4f7b-8e21-0a1b2c3d4e5f'',
      jwtSecretSet = True,
      jwtVerify = (\<lambda>t. Some t),
      toISOString = (\<lambda>t. ''T'' @ intToString t),
      jsonStringify = (\<lambda>v. ''{}''),
      stringTrim = trim,
      toDataURL = (\<lambda>s. Some (''data:image/png;base64,'' @ s)),
      lotSaveOk = True, userSaveOk = True, requestSaveOk = True\<rparr>"

definition exampleReq :: "string \<Rightarrow> Request" where
  "exampleReq who =
     \<lparr>bearer = Some who, lotIdParam = ''lot001'', queryToken = None,
      body_status = None, body_notes = None, body_sampleCheck = JUndefined,
      body_location = None, body_section = None, body_installationDate = None,
      body_condition = None, body_photos = None, body_nextInspectionDue = None,
      body_reason = None, body_description = None, body_priority = None\<rparr>"

definition acceptReq :: Request where
  "acceptReq = (exampleReq ''D1'')\<lparr>body_status := Some ''accepted'', body_notes := Some ''sample ok''\<rparr>"

definition badStatusReq :: Request where
  "badStatusReq = (exampleReq ''D1'')\<lparr>body_status := Some ''invalid_status''\<rparr>"

definition tokenReq :: "string \<Rightarrow> Request" where
  "tokenReq t = (exampleReq ''D1'')\<lparr>queryToken := Some t\<rparr>"

definition replaceReq :: "string \<Rightarrow> string \<Rightarrow> Request" where
  "replaceReq r d = (exampleReq ''I1'')\<lparr>body_reason := Some r, body_description := Some d\<rparr>"

definition installReq :: Request where
  "installReq = (exampleReq ''T1'')\<lparr>body_location := Some ''Section A'', body_section := Some ''Track 1''\<rparr>"

definition inspectReq :: Request where
  "inspectReq = (exampleReq ''I1'')\<lparr>body_condition := Some ''good''\<rparr>"

definition exampleOps :: "(Operation \<times> Env \<times> Request) list" where
  "exampleOps =
     [(OpUpdateStatus, exampleEnv, acceptReq),
      (OpInstall, exampleEnv, installReq),
      (OpInspection, exampleEnv, inspectReq),
      (OpReplacementRequest, exampleEnv, replaceReq ''defective'' ''cracked'')]"

text \<open>The example environment with the clock standing at \<open>t\<close>.\<close>

definition envAt :: "int \<Rightarrow> Env" where
  "envAt t = exampleEnv\<lparr>clock := (\<lambda>k. t)\<rparr>"

text \<open>The example store after vendor V1 has issued a token for LOT001, and the lot it
  then holds.\<close>

definition issuedDb :: Db where
  "issuedDb = snd (generateQr exampleEnv exampleDb (exampleReq ''V1''))"

definition issuedToken :: QrToken where
  "issuedToken = \<lparr>token = ''9b2f6c1e'', generatedAt = 1001, expiresAt = 86401000, generatedBy = ''V1''\<rparr>"

definition issuedLot :: Lot where
  "issuedLot = exampleLot
     \<lparr>qrTokens := [issuedToken],
      auditTrail := [\<lparr>timestamp = 1002, actorId = ''V1'', actorName = ''Test Vendor'',
                      action = ''qr_generated'',
                      details = ''Ephemeral QR code generated for lot'',
                      metadata = [(''qrToken'', JStr ''9b2f6c1e''),
                                  (''expiresAt'', JStr ''T86401000'')]\<rparr>],
      updatedAt := 1003\<rparr>"

text \<open>A second issuance for LOT001, at clock 2000, in which \<open>uuidv4\<close> yields a value with
  the same first eight characters as before, and the store after it.\<close>

definition laterEnv :: Env where
  "laterEnv = exampleEnv\<lparr>clock := (\<lambda>k. 2000 + int k)\<rparr>"

definition collidedDb :: Db where
  "collidedDb = snd (generateQr laterEnv issuedDb (exampleReq ''V1''))"

section \<open>Preservation of the lists of a lot\<close>

text \<open>Every lot of the first store is still in the second, its audit trail (its token
  list) extended at the tail only.\<close>

definition trailKept :: "Db \<Rightarrow> Db \<Rightarrow> bool" where
  "trailKept db db' = (\<forall>k lot. lots db k = Some lot \<longrightarrow>
      (\<exists>lot'. lots db' k = Some lot' \<and> prefix (auditTrail lot) (auditTrail lot')))"

definition tokensKept :: "Db \<Rightarrow> Db \<Rightarrow> bool" where
  "tokensKept db db' = (\<forall>k lot. lots db k = Some lot \<longrightarrow>
      (\<exists>lot'. lots db' k = Some lot' \<and> prefix (qrTokens lot) (qrTokens lot')))"

section \<open>Facts shared by the proofs\<close>

lemma authenticate_user:
  "authenticate env db req = Inr (uid, u) \<Longrightarrow> users db uid = Some u"
  by (auto simp: authenticate_def split: if_splits option.splits)

lemma find_append_keep:
  "find P xs = Some x \<Longrightarrow> find P (xs @ ys) = Some x"
  by (induction xs) auto

lemma find_append_fresh:
  "find P xs = None \<Longrightarrow> find P (xs @ ys) = find P ys"
  by (induction xs) (auto split: if_splits)

lemma toUpperCase_nonempty: "toUpperCase s = [] \<longleftrightarrow> s = []"
  by (simp add: toUpperCase_def)

lemma requestId_nonempty: "generateReplacementRequestId env k \<noteq> []"
  by (simp add: generateReplacementRequestId_def)

subsection \<open>The audit trail only grows\<close>

lemma trailKept_refl: "trailKept db db"
  by (auto simp: trailKept_def)

lemma trailKept_trans: "trailKept a b \<Longrightarrow> trailKept b c \<Longrightarrow> trailKept a c"
  unfolding trailKept_def by (metis prefix_order.trans)

lemma trailKept_generateQrHandler:
  "trailKept db (snd (generateQrHandler env db ru req))"
  by (auto simp: generateQrHandler_def Let_def trailKept_def saveLot_def saveUser_def
      split: option.splits)

lemma trailKept_updateStatusHandler:
  "trailKept db (snd (updateStatusHandler env db ru req))"
  by (auto simp: updateStatusHandler_def Let_def trailKept_def saveLot_def saveUser_def
      split: option.splits)

lemma trailKept_installHandler:
  "trailKept db (snd (installHandler env db ru req))"
  by (auto simp: installHandler_def Let_def trailKept_def saveLot_def saveUser_def
      split: option.splits)

lemma trailKept_inspectionHandler:
  "trailKept db (snd (inspectionHandler env db ru req))"
  by (auto simp: inspectionHandler_def Let_def trailKept_def saveLot_def saveUser_def
      split: option.splits)

lemma trailKept_replacementRequestHandler:
  "trailKept db (snd (replacementRequestHandler env db ru req))"
  by (auto simp: replacementRequestHandler_def Let_def trailKept_def saveLot_def saveUser_def
      saveRequest_def split: option.splits)

lemma trailKept_perform: "trailKept db (snd (perform opn env db req))"
  by (cases opn)
     (auto simp: generateQr_def updateStatus_def install_def inspection_def replacementRequest_def
        trailKept_refl trailKept_generateQrHandler trailKept_updateStatusHandler
        trailKept_installHandler trailKept_inspectionHandler trailKept_replacementRequestHandler
        split: sum.splits option.splits)

lemma trailKept_performAll: "trailKept db (performAll ops db)"
proof (induction ops arbitrary: db)
  case Nil
  show ?case by (simp add: trailKept_refl)
next
  case (Cons x ops)
  obtain opn env req where x: "x = (opn, env, req)" by (cases x) auto
  have "trailKept db (snd (perform opn env db req))" by (rule trailKept_perform)
  moreover have "trailKept (snd (perform opn env db req)) (performAll ops (snd (perform opn env db req)))"
    by (rule Cons.IH)
  ultimately show ?case unfolding x by (simp add: trailKept_trans)
qed

subsection \<open>Issuing a token\<close>

lemma checkToken_prefix:
  assumes "prefix (qrTokens lot) (qrTokens lot')" and "q \<in> set (qrTokens lot)"
  shows "checkToken lot' (token q) now = checkToken lot (token q) now"
proof -
  from assms(1) obtain zs where zs: "qrTokens lot' = qrTokens lot @ zs" by (auto simp: prefix_def)
  from assms(2) obtain x where x: "find (\<lambda>t. token t = token q) (qrTokens lot) = Some x"
    by (cases "find (\<lambda>t. token t = token q) (qrTokens lot)") (auto simp: find_None_iff)
  show ?thesis by (simp add: checkToken_def zs x find_append_keep [OF x])
qed

lemma checkToken_fresh:
  assumes "tok \<notin> token ` set ts" and "qrTokens lot' = ts @ [q]" and "token q = tok"
  shows "checkToken lot' tok now = None \<longleftrightarrow> now \<le> expiresAt q"
proof -
  from assms(1) have "find (\<lambda>t. token t = tok) ts = None"
    by (auto simp: find_None_iff)
  then have "find (\<lambda>t. token t = tok) (qrTokens lot') = Some q"
    using assms(2,3) by (simp add: find_append_fresh)
  then show ?thesis by (auto simp: checkToken_def)
qed

lemma tokensKept_refl: "tokensKept db db"
  by (auto simp: tokensKept_def)

lemma tokensKept_generateQrHandler:
  "tokensKept db (snd (generateQrHandler env db ru req))"
  by (auto simp: generateQrHandler_def Let_def tokensKept_def saveLot_def saveUser_def
      split: option.splits)

lemma tokensKept_generateQr:
  "tokensKept db (snd (generateQr env db req))"
  by (auto simp: generateQr_def tokensKept_generateQrHandler tokensKept_refl
      split: sum.splits option.splits)

lemma generateQrHandler_issued:
  assumes "code (fst (generateQrHandler env db ru req)) = 200"
  shows "\<exists>lot lot'. lots db (toUpperCase (lotIdParam req)) = Some lot
           \<and> lots (snd (generateQrHandler env db ru req)) (toUpperCase (lotIdParam req)) = Some lot'
           \<and> qrTokens lot' = qrTokens lot @
                [\<lparr>token = take 8 (uuidv4 env), generatedAt = clock env 1,
                  expiresAt = clock env 0 + DAY_MS, generatedBy = fst ru\<rparr>]"
  using assms
  by (auto simp: generateQrHandler_def Let_def saveLot_def saveUser_def failure_def
      split: option.splits if_splits)

lemma generateQr_issued:
  assumes "code (fst (generateQr env db req)) = 200"
  shows "\<exists>lot lot' uid. lots db (toUpperCase (lotIdParam req)) = Some lot
           \<and> lots (snd (generateQr env db req)) (toUpperCase (lotIdParam req)) = Some lot'
           \<and> qrTokens lot' = qrTokens lot @
                [\<lparr>token = take 8 (uuidv4 env), generatedAt = clock env 1,
                  expiresAt = clock env 0 + DAY_MS, generatedBy = uid\<rparr>]"
proof (cases "authenticate env db req")
  case (Inl r)
  with assms(1) show ?thesis
    by (auto simp: generateQr_def authenticate_def failure_def split: if_splits option.splits)
next
  case (Inr ru)
  show ?thesis
  proof (cases "authorize [Vendor] (snd ru)")
    case None
    with Inr have g: "generateQr env db req = generateQrHandler env db ru req"
      by (simp add: generateQr_def)
    from generateQrHandler_issued [of env db ru req] assms show ?thesis
      unfolding g by blast
  next
    case (Some r)
    with Inr assms(1) show ?thesis
      by (auto simp: generateQr_def authorize_def failure_def split: if_splits)
  qed
qed

subsection \<open>Reading a lot\<close>




subsection \<open>Failures before the first write\<close>








subsection \<open>Failures with no save refused after an accepted one\<close>










lemma replacementRequest_gate:
  assumes "authenticate env db req = Inr (uid, u)" and "role u \<in> {TrackWorker, Inspector}"
  shows "replacementRequest env db req = replacementRequestHandler env db (uid, u) req"
  using assms by (auto simp: replacementRequest_def authorize_def)

subsection \<open>The example store, evaluated\<close>

lemmas example_defs =
  exampleEnv_def exampleDb_def exampleReq_def exampleUser_def exampleLot_def
  acceptReq_def badStatusReq_def tokenReq_def replaceReq_def envAt_def
  installReq_def inspectReq_def
  issuedToken_def issuedLot_def

lemmas route_defs =
  authenticate_def authorize_def truthy_def optStr_def photosOrEmpty_def
  toUpperCase_def upperChar_def failure_def ok_def saveLot_def saveUser_def Let_def DAY_MS_def

lemma issuedDb_eq:
  "issuedDb = exampleDb
     \<lparr>lots := (lots exampleDb)(''LOT001'' \<mapsto> issuedLot),
      users := (users exampleDb)(''V1'' \<mapsto> (exampleUser ''Vendor'' Vendor)
         \<lparr>history := [\<lparr>timestamp_h = 1004, action_h = ''generate_qr'', targetType = ''lot'',
                        targetId = ''LOT001'', details_h = ''Generated QR code for lot TEST001'',
                        metadata_h = [(''qrToken'', JStr ''9b2f6c1e''),
                                      (''expiresAt'', JStr ''T86401000'')]\<rparr>],
           updatedAt_u := 1005\<rparr>)\<rparr>"
  by (simp add: issuedDb_def generateQr_def generateQrHandler_def example_defs route_defs
      intToString_def digitChar_def)

lemma issuedDb_lot: "lots issuedDb ''LOT001'' = Some issuedLot"
  by (simp add: issuedDb_eq)

lemma issuedDb_depot: "users issuedDb ''D1'' = Some (exampleUser ''Depot'' DepotStaff)"
  by (simp add: issuedDb_eq exampleDb_def)

lemma tokenReq_auth:
  "authenticate (envAt t) issuedDb (tokenReq tok) = Inr (''D1'', exampleUser ''Depot'' DepotStaff)"
  by (simp add: authenticate_def truthy_def issuedDb_depot envAt_def exampleEnv_def tokenReq_def
      exampleReq_def)

lemma tokenReq_lot: "lots issuedDb (toUpperCase (lotIdParam (tokenReq tok))) = Some issuedLot"
  by (simp add: tokenReq_def exampleReq_def toUpperCase_def upperChar_def issuedDb_lot)

lemma exampleAuth:
  "bearer req = Some who \<Longrightarrow> who \<noteq> [] \<Longrightarrow> users exampleDb who = Some u
     \<Longrightarrow> authenticate exampleEnv exampleDb req = Inr (who, u)"
  by (simp add: authenticate_def truthy_def exampleEnv_def)

lemma exampleUsers:
  "users exampleDb ''V1'' = Some (exampleUser ''Vendor'' Vendor)"
  "users exampleDb ''V2'' = Some (exampleUser ''Other'' Vendor)"
  "users exampleDb ''D1'' = Some (exampleUser ''Depot'' DepotStaff)"
  "users exampleDb ''T1'' = Some (exampleUser ''Worker'' TrackWorker)"
  "users exampleDb ''I1'' = Some (exampleUser ''Inspector'' Inspector)"
  by (simp_all add: exampleDb_def)

lemma trim_examples:
  "trim ''cracked'' = ''cracked''"
  "trim '' '' = []"
  "trim [CHR 0xC2, CHR 0xA0] = []"
  by (simp_all add: trim_def dropTrailing_def dropLeading.simps whiteSpace_def)

lemma exampleKey: "toUpperCase ''lot001'' = ''LOT001''"
  by (simp add: toUpperCase_def upperChar_def)

lemma exampleLots: "lots exampleDb ''LOT001'' = Some exampleLot"
  by (simp add: exampleDb_def)

section \<open>Validating a presented token\<close>

lemma getLot_token_given:
  assumes auth: "authenticate env db req = Inr (uid, u)"
    and lot: "lots db (toUpperCase (lotIdParam req)) = Some lot"
    and tok: "queryToken req = Some tok" "tok \<noteq> []"
  shows "(tok \<notin> token ` set (qrTokens lot) \<longrightarrow>
            fst (getLot env db req) = failure 401 ''Invalid QR token'')
       \<and> (\<forall>q. find (\<lambda>t. token t = tok) (qrTokens lot) = Some q \<longrightarrow>
            (fst (getLot env db req) = failure 401 ''QR token has expired''
               \<longleftrightarrow> clock env 0 > expiresAt q)
          \<and> (fst (getLot env db req)
                 = ok 200 ''Lot retrieved successfully'' (LotData (toUpperCase (lotIdParam req)) lot)
               \<longleftrightarrow> clock env 0 \<le> expiresAt q))
       \<and> (\<forall>envI dbI reqI lotI.
             code (fst (generateQr envI dbI reqI)) = 200
           \<and> snd (generateQr envI dbI reqI) = db
           \<and> toUpperCase (lotIdParam reqI) = toUpperCase (lotIdParam req)
           \<and> lots dbI (toUpperCase (lotIdParam req)) = Some lotI
           \<and> tok \<notin> token ` set (qrTokens lotI)
           \<and> tok = take 8 (uuidv4 envI) \<longrightarrow>
             (fst (getLot env db req)
                 = ok 200 ''Lot retrieved successfully'' (LotData (toUpperCase (lotIdParam req)) lot)
               \<longleftrightarrow> clock env 0 \<le> clock envI 0 + DAY_MS))"
proof -
  have g: "getLot env db req = getLotHandler env db (uid, u) req"
    using auth by (simp add: getLot_def)
  have absent: "find (\<lambda>t. token t = tok) (qrTokens lot) = None"
    if "tok \<notin> token ` set (qrTokens lot)"
    using that by (auto simp: find_None_iff)
  have present: "(fst (getLot env db req) = failure 401 ''QR token has expired''
               \<longleftrightarrow> clock env 0 > expiresAt q)
          \<and> (fst (getLot env db req)
                 = ok 200 ''Lot retrieved successfully'' (LotData (toUpperCase (lotIdParam req)) lot)
               \<longleftrightarrow> clock env 0 \<le> expiresAt q)"
    if "find (\<lambda>t. token t = tok) (qrTokens lot) = Some q" for q
    unfolding g using lot tok that
    by (auto simp: getLotHandler_def Let_def truthy_def checkToken_def failure_def ok_def)
  have issued: "fst (getLot env db req)
                 = ok 200 ''Lot retrieved successfully'' (LotData (toUpperCase (lotIdParam req)) lot)
               \<longleftrightarrow> clock env 0 \<le> clock envI 0 + DAY_MS"
    if h: "code (fst (generateQr envI dbI reqI)) = 200
           \<and> snd (generateQr envI dbI reqI) = db
           \<and> toUpperCase (lotIdParam reqI) = toUpperCase (lotIdParam req)
           \<and> lots dbI (toUpperCase (lotIdParam req)) = Some lotI
           \<and> tok \<notin> token ` set (qrTokens lotI)
           \<and> tok = take 8 (uuidv4 envI)" for envI dbI reqI lotI
  proof -
    from h have c: "code (fst (generateQr envI dbI reqI)) = 200" by simp
    from generateQr_issued [OF c] h lot obtain uidI where
      q: "qrTokens lot = qrTokens lotI @
                [\<lparr>token = tok, generatedAt = clock envI 1,
                  expiresAt = clock envI 0 + DAY_MS, generatedBy = uidI\<rparr>]"
      by auto
    from h have "tok \<notin> token ` set (qrTokens lotI)" by blast
    then have "find (\<lambda>t. token t = tok) (qrTokens lotI) = None"
      by (auto simp: find_None_iff)
    then have "find (\<lambda>t. token t = tok) (qrTokens lot)
                 = Some \<lparr>token = tok, generatedAt = clock envI 1,
                         expiresAt = clock envI 0 + DAY_MS, generatedBy = uidI\<rparr>"
      by (simp add: q find_append_fresh)
    from present [OF this] show ?thesis by simp
  qed
  show ?thesis
  proof (intro conjI impI allI)
    assume "tok \<notin> token ` set (qrTokens lot)"
    then show "fst (getLot env db req) = failure 401 ''Invalid QR token''"
      unfolding g using lot tok
      by (simp add: getLotHandler_def Let_def truthy_def checkToken_def absent)
  next
    fix q assume "find (\<lambda>t. token t = tok) (qrTokens lot) = Some q"
    from present [OF this]
    show "fst (getLot env db req) = failure 401 ''QR token has expired''
               \<longleftrightarrow> clock env 0 > expiresAt q" by simp
  next
    fix q assume "find (\<lambda>t. token t = tok) (qrTokens lot) = Some q"
    from present [OF this]
    show "fst (getLot env db req)
                 = ok 200 ''Lot retrieved successfully'' (LotData (toUpperCase (lotIdParam req)) lot)
               \<longleftrightarrow> clock env 0 \<le> expiresAt q" by simp
  next
    fix envI dbI reqI lotI
    assume "code (fst (generateQr envI dbI reqI)) = 200
           \<and> snd (generateQr envI dbI reqI) = db
           \<and> toUpperCase (lotIdParam reqI) = toUpperCase (lotIdParam req)
           \<and> lots dbI (toUpperCase (lotIdParam req)) = Some lotI
           \<and> tok \<notin> token ` set (qrTokens lotI)
           \<and> tok = take 8 (uuidv4 envI)"
    then show "fst (getLot env db req)
                 = ok 200 ''Lot retrieved successfully'' (LotData (toUpperCase (lotIdParam req)) lot)
               \<longleftrightarrow> clock env 0 \<le> clock envI 0 + DAY_MS"
      by (rule issued)
  qed
qed

text \<open>
  C1 (as amended).  GET /:lotId by an authenticated actor, on an existing lot.  With a
  non-empty \<open>token\<close> in the query: the answer is 401 "Invalid QR token" (TokenNotFound)
  when no entry of the lot's token list carries the value.  Otherwise the first entry
  with that value decides: the answer is 401 "QR token has expired" (TokenExpired)
  exactly when the time of the check is strictly after the entry's \<open>expiresAt\<close>, and the
  lot is returned (valid) exactly when the time of the check is at or before it; no
  lower bound on the time of the check is tested.  For a token that generate-qr has
  just issued under a value new to the lot, \<open>expiresAt\<close> is the clock read at issuance
  plus 24 hours, so the token is valid at every check up to and including that instant
  and expired after it.  With no \<open>token\<close> in the query, or an empty one, no token is
  validated and the access by role applies: a vendor who does not own the lot is
  answered 403, anyone else gets the lot.
\<close>

theorem getLot_token_check:
  assumes auth: "authenticate env db req = Inr (uid, u)"
    and lot: "lots db (toUpperCase (lotIdParam req)) = Some lot"
  shows "(\<forall>tok. queryToken req = Some tok \<and> tok \<noteq> [] \<longrightarrow>
     (tok \<notin> token ` set (qrTokens lot) \<longrightarrow>
                 fst (getLot env db req) = failure 401 ''Invalid QR token'')
            \<and> (\<forall>q. find (\<lambda>t. token t = tok) (qrTokens lot) = Some q \<longrightarrow>
                 (fst (getLot env db req) = failure 401 ''QR token has expired''
                    \<longleftrightarrow> clock env 0 > expiresAt q)
               \<and> (fst (getLot env db req)
                      = ok 200 ''Lot retrieved successfully'' (LotData (toUpperCase (lotIdParam req)) lot)
                    \<longleftrightarrow> clock env 0 \<le> expiresAt q))
            \<and> (\<forall>envI dbI reqI lotI.
                  code (fst (generateQr envI dbI reqI)) = 200
                \<and> snd (generateQr envI dbI reqI) = db
                \<and> toUpperCase (lotIdParam reqI) = toUpperCase (lotIdParam req)
                \<and> lots dbI (toUpperCase (lotIdParam req)) = Some lotI
                \<and> tok \<notin> token ` set (qrTokens lotI)
                \<and> tok = take 8 (uuidv4 envI) \<longrightarrow>
                  (fst (getLot env db req)
                      = ok 200 ''Lot retrieved successfully'' (LotData (toUpperCase (lotIdParam req)) lot)
                    \<longleftrightarrow> clock env 0 \<le> clock envI 0 + DAY_MS)))
       \<and> (queryToken req = None \<or> queryToken req = Some [] \<longrightarrow>
            fst (getLot env db req)
              = (if role u = Vendor \<and> vendorId lot \<noteq> uid then failure 403 ''Access denied''
                 else ok 200 ''Lot retrieved successfully''
                        (LotData (toUpperCase (lotIdParam req)) lot)))"
proof (rule conjI)
  show "\<forall>tok. queryToken req = Some tok \<and> tok \<noteq> [] \<longrightarrow>
     (tok \<notin> token ` set (qrTokens lot) \<longrightarrow>
                 fst (getLot env db req) = failure 401 ''Invalid QR token'')
            \<and> (\<forall>q. find (\<lambda>t. token t = tok) (qrTokens lot) = Some q \<longrightarrow>
                 (fst (getLot env db req) = failure 401 ''QR token has expired''
                    \<longleftrightarrow> clock env 0 > expiresAt q)
               \<and> (fst (getLot env db req)
                      = ok 200 ''Lot retrieved successfully'' (LotData (toUpperCase (lotIdParam req)) lot)
                    \<longleftrightarrow> clock env 0 \<le> expiresAt q))
            \<and> (\<forall>envI dbI reqI lotI.
                  code (fst (generateQr envI dbI reqI)) = 200
                \<and> snd (generateQr envI dbI reqI) = db
                \<and> toUpperCase (lotIdParam reqI) = toUpperCase (lotIdParam req)
                \<and> lots dbI (toUpperCase (lotIdParam req)) = Some lotI
                \<and> tok \<notin> token ` set (qrTokens lotI)
                \<and> tok = take 8 (uuidv4 envI) \<longrightarrow>
                  (fst (getLot env db req)
                      = ok 200 ''Lot retrieved successfully'' (LotData (toUpperCase (lotIdParam req)) lot)
                    \<longleftrightarrow> clock env 0 \<le> clock envI 0 + DAY_MS)) "
  proof (intro allI impI)
    fix tok
    assume "queryToken req = Some tok \<and> tok \<noteq> []"
    then have t: "queryToken req = Some tok" "tok \<noteq> []" by simp_all
    show " (tok \<notin> token ` set (qrTokens lot) \<longrightarrow>
            fst (getLot env db req) = failure 401 ''Invalid QR token'')
       \<and> (\<forall>q. find (\<lambda>t. token t = tok) (qrTokens lot) = Some q \<longrightarrow>
            (fst (getLot env db req) = failure 401 ''QR token has expired''
               \<longleftrightarrow> clock env 0 > expiresAt q)
          \<and> (fst (getLot env db req)
                 = ok 200 ''Lot retrieved successfully'' (LotData (toUpperCase (lotIdParam req)) lot)
               \<longleftrightarrow> clock env 0 \<le> expiresAt q))
       \<and> (\<forall>envI dbI reqI lotI.
             code (fst (generateQr envI dbI reqI)) = 200
           \<and> snd (generateQr envI dbI reqI) = db
           \<and> toUpperCase (lotIdParam reqI) = toUpperCase (lotIdParam req)
           \<and> lots dbI (toUpperCase (lotIdParam req)) = Some lotI
           \<and> tok \<notin> token ` set (qrTokens lotI)
           \<and> tok = take 8 (uuidv4 envI) \<longrightarrow>
             (fst (getLot env db req)
                 = ok 200 ''Lot retrieved successfully'' (LotData (toUpperCase (lotIdParam req)) lot)
               \<longleftrightarrow> clock env 0 \<le> clock envI 0 + DAY_MS)) "
      by (rule getLot_token_given [OF auth lot t])
  qed
next
  have g: "getLot env db req = getLotHandler env db (uid, u) req"
    using auth by (simp add: getLot_def)
  show "queryToken req = None \<or> queryToken req = Some [] \<longrightarrow>
            fst (getLot env db req)
              = (if role u = Vendor \<and> vendorId lot \<noteq> uid then failure 403 ''Access denied''
                 else ok 200 ''Lot retrieved successfully''
                        (LotData (toUpperCase (lotIdParam req)) lot)) "
    unfolding g using lot
    by (auto simp: getLotHandler_def Let_def truthy_def regularAccess_def)
qed

theorem getLot_token_check_witness:
  "authenticate (envAt 86401000) issuedDb (tokenReq ''9b2f6c1e'')
      = Inr (''D1'', exampleUser ''Depot'' DepotStaff)
   \<and> lots issuedDb (toUpperCase (lotIdParam (tokenReq ''9b2f6c1e''))) = Some issuedLot
   \<and> queryToken (tokenReq ''9b2f6c1e'') = Some ''9b2f6c1e''
   \<and> qrTokens issuedLot = [issuedToken]
   \<and> expiresAt issuedToken = 86401000
   \<and> fst (getLot (envAt 86401000) issuedDb (tokenReq ''9b2f6c1e''))
        = ok 200 ''Lot retrieved successfully'' (LotData ''LOT001'' issuedLot)
   \<and> fst (getLot (envAt 86401001) issuedDb (tokenReq ''9b2f6c1e''))
        = failure 401 ''QR token has expired''
   \<and> fst (getLot (envAt 5000) issuedDb (tokenReq ''deadbeef'')) = failure 401 ''Invalid QR token''
   \<and> code (fst (generateQr exampleEnv exampleDb (exampleReq ''V1''))) = 200
   \<and> snd (generateQr exampleEnv exampleDb (exampleReq ''V1'')) = issuedDb
   \<and> take 8 (uuidv4 exampleEnv) = ''9b2f6c1e''
   \<and> clock exampleEnv 0 + DAY_MS = 86401000
   \<and> code (fst (getLot (envAt 86400999) issuedDb (tokenReq ''9b2f6c1e''))) = 200
   \<and> queryToken (tokenReq '''') = Some ''''
   \<and> role (exampleUser ''Depot'' DepotStaff) \<noteq> Vendor
   \<and> fst (getLot (envAt 5000) issuedDb (tokenReq ''''))
        = ok 200 ''Lot retrieved successfully'' (LotData ''LOT001'' issuedLot)
   \<and> authenticate (envAt 5000) issuedDb (exampleReq ''V2'') = Inr (''V2'', exampleUser ''Other'' Vendor)
   \<and> queryToken (exampleReq ''V2'') = None
   \<and> role (exampleUser ''Other'' Vendor) = Vendor
   \<and> vendorId issuedLot = ''V1''
   \<and> fst (getLot (envAt 5000) issuedDb (exampleReq ''V2'')) = failure 403 ''Access denied''"
proof -
  note given = getLot_token_check [THEN conjunct1, rule_format, OF _ _ conjI]
  note absentOrEmpty = getLot_token_check [THEN conjunct2, rule_format]
  have gc: "code (fst (generateQr exampleEnv exampleDb (exampleReq ''V1''))) = 200"
    by (simp add: generateQr_def generateQrHandler_def example_defs route_defs)
  have gd: "snd (generateQr exampleEnv exampleDb (exampleReq ''V1'')) = issuedDb"
    by (simp add: issuedDb_def)
  have gv: "take 8 (uuidv4 exampleEnv) = ''9b2f6c1e''" "clock exampleEnv 0 + DAY_MS = 86401000"
    by (simp_all add: exampleEnv_def DAY_MS_def)
  have gk: "toUpperCase (lotIdParam (exampleReq ''V1'')) = toUpperCase (lotIdParam (tokenReq ''9b2f6c1e''))"
    by (simp add: tokenReq_def exampleReq_def)
  have gl: "lots exampleDb (toUpperCase (lotIdParam (tokenReq ''9b2f6c1e''))) = Some exampleLot"
    by (simp add: tokenReq_def exampleReq_def exampleKey exampleLots)
  have gf: "''9b2f6c1e'' \<notin> token ` set (qrTokens exampleLot)"
    by (simp add: exampleLot_def)
  have q: "queryToken (tokenReq ''9b2f6c1e'') = Some ''9b2f6c1e''"
    and q': "queryToken (tokenReq ''deadbeef'') = Some ''deadbeef''"
    by (simp_all add: tokenReq_def exampleReq_def)
  have ne: "''9b2f6c1e'' \<noteq> []" and ne': "''deadbeef'' \<noteq> []" by simp_all
  have ts: "qrTokens issuedLot = [issuedToken]" by (simp add: issuedLot_def)
  have ex: "expiresAt issuedToken = 86401000" by (simp add: issuedToken_def)
  have f: "find (\<lambda>t. token t = ''9b2f6c1e'') (qrTokens issuedLot) = Some issuedToken"
    by (simp add: ts) (simp add: issuedToken_def)
  have absent: "''deadbeef'' \<notin> token ` set (qrTokens issuedLot)"
    by (simp add: ts) (simp add: issuedToken_def)
  have k: "toUpperCase (lotIdParam (tokenReq ''9b2f6c1e'')) = ''LOT001''"
    by (simp add: tokenReq_def exampleReq_def toUpperCase_def upperChar_def)
  have c0: "clock (envAt 86401000) 0 \<le> expiresAt issuedToken"
    and c1: "clock (envAt 86401001) 0 > expiresAt issuedToken"
    by (simp_all add: envAt_def ex)
  from given [OF tokenReq_auth [of 86401000] tokenReq_lot q ne] f c0
  have a: "fst (getLot (envAt 86401000) issuedDb (tokenReq ''9b2f6c1e''))
        = ok 200 ''Lot retrieved successfully'' (LotData ''LOT001'' issuedLot)"
    by (simp add: k)
  from given [OF tokenReq_auth [of 86401001] tokenReq_lot q ne] f c1
  have b: "fst (getLot (envAt 86401001) issuedDb (tokenReq ''9b2f6c1e''))
        = failure 401 ''QR token has expired''"
    by blast
  from given [OF tokenReq_auth [of 5000] tokenReq_lot q' ne'] absent
  have c: "fst (getLot (envAt 5000) issuedDb (tokenReq ''deadbeef'')) = failure 401 ''Invalid QR token''"
    by blast
  have c2: "clock (envAt 86400999) 0 \<le> clock exampleEnv 0 + DAY_MS"
    by (simp add: envAt_def gv)
  have "fst (getLot (envAt 86400999) issuedDb (tokenReq ''9b2f6c1e''))
          = ok 200 ''Lot retrieved successfully''
              (LotData (toUpperCase (lotIdParam (tokenReq ''9b2f6c1e''))) issuedLot)
        \<longleftrightarrow> clock (envAt 86400999) 0 \<le> clock exampleEnv 0 + DAY_MS"
    by (rule given [OF tokenReq_auth [of 86400999] tokenReq_lot q ne,
          THEN conjunct2, THEN conjunct2, rule_format,
          where envI = exampleEnv and dbI = exampleDb and reqI = "exampleReq ''V1''"
            and lotI = exampleLot])
       (simp add: gc gd gk gl gf gv)
  with c2
  have "fst (getLot (envAt 86400999) issuedDb (tokenReq ''9b2f6c1e''))
        = ok 200 ''Lot retrieved successfully''
            (LotData (toUpperCase (lotIdParam (tokenReq ''9b2f6c1e''))) issuedLot)"
    by blast
  then have d: "code (fst (getLot (envAt 86400999) issuedDb (tokenReq ''9b2f6c1e''))) = 200"
    by (simp add: ok_def)
  have q0: "queryToken (tokenReq '''') = Some ''''" by (simp add: tokenReq_def exampleReq_def)
  have k0: "toUpperCase (lotIdParam (tokenReq '''')) = ''LOT001''"
    by (simp add: tokenReq_def exampleReq_def exampleKey)
  have rD: "role (exampleUser ''Depot'' DepotStaff) \<noteq> Vendor" by (simp add: exampleUser_def)
  from absentOrEmpty [OF tokenReq_auth [of 5000 "''''"] tokenReq_lot [of "''''"]] q0 rD
  have e: "fst (getLot (envAt 5000) issuedDb (tokenReq ''''))
        = ok 200 ''Lot retrieved successfully'' (LotData ''LOT001'' issuedLot)"
    by (simp add: k0)
  have aO: "authenticate (envAt 5000) issuedDb (exampleReq ''V2'') = Inr (''V2'', exampleUser ''Other'' Vendor)"
    by (simp add: authenticate_def truthy_def issuedDb_eq exampleDb_def envAt_def exampleEnv_def
        exampleReq_def)
  have lO: "lots issuedDb (toUpperCase (lotIdParam (exampleReq ''V2''))) = Some issuedLot"
    by (simp add: exampleReq_def exampleKey issuedDb_lot)
  have qO: "queryToken (exampleReq ''V2'') = None" by (simp add: exampleReq_def)
  have rO: "role (exampleUser ''Other'' Vendor) = Vendor" by (simp add: exampleUser_def)
  have vO: "vendorId issuedLot = ''V1''" by (simp add: issuedLot_def exampleLot_def)
  from absentOrEmpty [OF aO lO] qO rO vO
  have n: "fst (getLot (envAt 5000) issuedDb (exampleReq ''V2'')) = failure 403 ''Access denied''"
    by simp
  from tokenReq_auth [of 86401000 "''9b2f6c1e''"] tokenReq_lot [of "''9b2f6c1e''"] q ts ex a b c
    gc gd gv d q0 rD e aO qO rO vO n
  show ?thesis by blast
qed

theorem validate_at_expiry_counterexample:
  "lots issuedDb ''LOT001'' = Some issuedLot
   \<and> qrTokens issuedLot = [issuedToken]
   \<and> token issuedToken = ''9b2f6c1e''
   \<and> expiresAt issuedToken = 86401000
   \<and> clock (envAt 86401000) 0 = 86401000
   \<and> fst (getLot (envAt 86401000) issuedDb (tokenReq ''9b2f6c1e''))
        = ok 200 ''Lot retrieved successfully'' (LotData ''LOT001'' issuedLot)
   \<and> queryToken (tokenReq '''') = Some ''''
   \<and> fst (getLot (envAt 5000) issuedDb (tokenReq ''''))
        = ok 200 ''Lot retrieved successfully'' (LotData ''LOT001'' issuedLot)"
proof -
  have ts: "qrTokens issuedLot = [issuedToken]" by (simp add: issuedLot_def)
  have a: "fst (getLot (envAt 86401000) issuedDb (tokenReq ''9b2f6c1e''))
        = ok 200 ''Lot retrieved successfully'' (LotData ''LOT001'' issuedLot)"
    using tokenReq_lot [of "''9b2f6c1e''"]
    by (simp add: getLot_def tokenReq_auth getLotHandler_def Let_def checkToken_def ts)
       (simp add: tokenReq_def exampleReq_def truthy_def issuedToken_def envAt_def
          toUpperCase_def upperChar_def)
  have b: "fst (getLot (envAt 5000) issuedDb (tokenReq ''''))
        = ok 200 ''Lot retrieved successfully'' (LotData ''LOT001'' issuedLot)"
    using tokenReq_lot [of "''''"]
    by (simp add: getLot_def tokenReq_auth getLotHandler_def Let_def regularAccess_def)
       (simp add: tokenReq_def exampleReq_def truthy_def exampleUser_def
          toUpperCase_def upperChar_def)
  show ?thesis
    using a b ts issuedDb_lot
    by (simp add: issuedToken_def envAt_def tokenReq_def exampleReq_def)
qed

section \<open>The status transition\<close>

text \<open>
  C2.  PUT /:id/status by an authenticated depot-staff actor on an existing lot, the
  writes being accepted by the database.  When the \<open>status\<close> of the body is one of
  pending, verified, rejected, accepted, held, the request succeeds (200) whatever the
  current status of the lot: the stored lot has the new status and its audit trail is
  the former one followed by one entry tagged \<open>status_updated\<close> whose metadata holds the
  prior status as \<open>previousStatus\<close>, the new one as \<open>newStatus\<close>, the \<open>notes\<close> and the
  \<open>sampleCheck\<close> of the body.  When the \<open>status\<close> of the body is anything else, the
  answer is 400 "Invalid status" and the store is unchanged.
\<close>

theorem updateStatus_by_depot_staff:
  assumes auth: "authenticate env db req = Inr (uid, u)" and dep: "role u = DepotStaff"
    and lot: "lots db (toUpperCase (lotIdParam req)) = Some lot"
    and saves: "lotSaveOk env" "userSaveOk env"
  shows "(body_status req \<in> Some ` set lotStatuses \<longrightarrow>
           (\<exists>lot' e. code (fst (updateStatus env db req)) = 200
              \<and> success (fst (updateStatus env db req))
              \<and> lots (snd (updateStatus env db req)) (toUpperCase (lotIdParam req)) = Some lot'
              \<and> body_status req = Some (status lot')
              \<and> auditTrail lot' = auditTrail lot @ [e]
              \<and> action e = ''status_updated''
              \<and> metadata e = [(''previousStatus'', JStr (status lot)),
                              (''newStatus'', JStr (status lot')),
                              (''notes'', optStr (body_notes req)),
                              (''sampleCheck'', body_sampleCheck req)]))
       \<and> (body_status req \<notin> Some ` set lotStatuses \<longrightarrow>
            fst (updateStatus env db req) = failure 400 ''Invalid status''
            \<and> snd (updateStatus env db req) = db)"
proof -
  have usr: "users db uid = Some u" using auth by (rule authenticate_user)
  have gate: "updateStatus env db req = updateStatusHandler env db (uid, u) req"
    using auth dep by (simp add: updateStatus_def authorize_def)
  show ?thesis
    unfolding gate using usr lot saves
    by (auto simp: updateStatusHandler_def Let_def saveLot_def saveUser_def ok_def)
qed

theorem updateStatus_by_depot_staff_witness:
  "authenticate exampleEnv exampleDb acceptReq = Inr (''D1'', exampleUser ''Depot'' DepotStaff)
   \<and> role (exampleUser ''Depot'' DepotStaff) = DepotStaff
   \<and> lots exampleDb (toUpperCase (lotIdParam acceptReq)) = Some exampleLot
   \<and> lotSaveOk exampleEnv \<and> userSaveOk exampleEnv
   \<and> body_status acceptReq = Some ''accepted''
   \<and> ''accepted'' \<in> set lotStatuses
   \<and> status exampleLot = ''pending''
   \<and> code (fst (updateStatus exampleEnv exampleDb acceptReq)) = 200
   \<and> status (the (lots (snd (updateStatus exampleEnv exampleDb acceptReq)) ''LOT001'')) = ''accepted''
   \<and> map action (auditTrail (the (lots (snd (updateStatus exampleEnv exampleDb acceptReq)) ''LOT001'')))
        = [''status_updated'']
   \<and> map metadata (auditTrail (the (lots (snd (updateStatus exampleEnv exampleDb acceptReq)) ''LOT001'')))
        = [[(''previousStatus'', JStr ''pending''), (''newStatus'', JStr ''accepted''),
            (''notes'', JStr ''sample ok''), (''sampleCheck'', JUndefined)]]
   \<and> authenticate exampleEnv exampleDb badStatusReq = Inr (''D1'', exampleUser ''Depot'' DepotStaff)
   \<and> body_status badStatusReq = Some ''invalid_status''
   \<and> ''invalid_status'' \<notin> set lotStatuses
   \<and> fst (updateStatus exampleEnv exampleDb badStatusReq) = failure 400 ''Invalid status''
   \<and> snd (updateStatus exampleEnv exampleDb badStatusReq) = exampleDb"
proof -
  have a1: "authenticate exampleEnv exampleDb acceptReq = Inr (''D1'', exampleUser ''Depot'' DepotStaff)"
    by (rule exampleAuth) (simp_all add: acceptReq_def exampleReq_def exampleUsers)
  have a2: "authenticate exampleEnv exampleDb badStatusReq = Inr (''D1'', exampleUser ''Depot'' DepotStaff)"
    by (rule exampleAuth) (simp_all add: badStatusReq_def exampleReq_def exampleUsers)
  have r: "role (exampleUser ''Depot'' DepotStaff) = DepotStaff" by (simp add: exampleUser_def)
  have l1: "lots exampleDb (toUpperCase (lotIdParam acceptReq)) = Some exampleLot"
    by (simp add: acceptReq_def exampleReq_def exampleKey exampleLots)
  have l2: "lots exampleDb (toUpperCase (lotIdParam badStatusReq)) = Some exampleLot"
    by (simp add: badStatusReq_def exampleReq_def exampleKey exampleLots)
  have s: "lotSaveOk exampleEnv" "userSaveOk exampleEnv" by (simp_all add: exampleEnv_def)
  have b1: "body_status acceptReq = Some ''accepted''" "body_notes acceptReq = Some ''sample ok''"
    "body_sampleCheck acceptReq = JUndefined" "toUpperCase (lotIdParam acceptReq) = ''LOT001''"
    by (simp_all add: acceptReq_def exampleReq_def exampleKey)
  have b2: "body_status badStatusReq = Some ''invalid_status''"
    by (simp add: badStatusReq_def exampleReq_def)
  have m1: "''accepted'' \<in> set lotStatuses" and m2: "''invalid_status'' \<notin> set lotStatuses"
    by (simp_all add: lotStatuses_def)
  have p: "status exampleLot = ''pending''" "auditTrail exampleLot = []"
    by (simp_all add: exampleLot_def)
  from updateStatus_by_depot_staff [OF a1 r l1 s] b1 m1
  obtain lot' e where
    "code (fst (updateStatus exampleEnv exampleDb acceptReq)) = 200"
    "lots (snd (updateStatus exampleEnv exampleDb acceptReq)) ''LOT001'' = Some lot'"
    "status lot' = ''accepted''"
    "auditTrail lot' = [e]" "action e = ''status_updated''"
    "metadata e = [(''previousStatus'', JStr ''pending''), (''newStatus'', JStr ''accepted''),
            (''notes'', JStr ''sample ok''), (''sampleCheck'', JUndefined)]"
    by (auto simp: p optStr_def)
  moreover
  from updateStatus_by_depot_staff [OF a2 r l2 s] b2 m2
  have "fst (updateStatus exampleEnv exampleDb badStatusReq) = failure 400 ''Invalid status''
      \<and> snd (updateStatus exampleEnv exampleDb badStatusReq) = exampleDb"
    by auto
  ultimately show ?thesis using a1 a2 r l1 s b1 b2 m1 m2 p by simp
qed

section \<open>What a failed operation leaves behind\<close>




section \<open>The role gate of the status transition\<close>

text \<open>
  C4.  Whoever the authenticated actor is, when the role is not depot-staff (vendor,
  admin, track-worker or inspector) the request to PUT /:id/status is answered 403
  (Forbidden) by \<open>authorize('depot-staff')\<close>, whatever the body and the current status
  of the lot, and the store is left as it was.
\<close>

theorem updateStatus_other_role_forbidden:
  assumes "authenticate env db req = Inr (uid, u)" and "role u \<noteq> DepotStaff"
  shows "code (fst (updateStatus env db req)) = 403
       \<and> \<not> success (fst (updateStatus env db req))
       \<and> snd (updateStatus env db req) = db"
  using assms by (simp add: updateStatus_def authorize_def failure_def)

theorem updateStatus_other_role_forbidden_witness:
  "authenticate exampleEnv exampleDb ((exampleReq ''V1'')\<lparr>body_status := Some ''accepted''\<rparr>)
     = Inr (''V1'', exampleUser ''Vendor'' Vendor)
   \<and> role (exampleUser ''Vendor'' Vendor) \<noteq> DepotStaff
   \<and> code (fst (updateStatus exampleEnv exampleDb ((exampleReq ''V1'')\<lparr>body_status := Some ''accepted''\<rparr>))) = 403
   \<and> snd (updateStatus exampleEnv exampleDb ((exampleReq ''V1'')\<lparr>body_status := Some ''accepted''\<rparr>)) = exampleDb"
proof -
  have a: "authenticate exampleEnv exampleDb ((exampleReq ''V1'')\<lparr>body_status := Some ''accepted''\<rparr>)
             = Inr (''V1'', exampleUser ''Vendor'' Vendor)"
    by (rule exampleAuth) (simp_all add: exampleReq_def exampleUsers)
  have r: "role (exampleUser ''Vendor'' Vendor) \<noteq> DepotStaff"
    by (simp add: exampleUser_def)
  from updateStatus_other_role_forbidden [OF a r] a r show ?thesis by simp
qed

section \<open>Issuing a token\<close>

text \<open>
  C5.  POST /:lotId/generate-qr by an authenticated actor.  A role other than vendor is
  answered 403 and nothing is stored.  A vendor who is not the \<open>vendorId\<close> of the lot is
  answered 403 and nothing is stored.  When the vendor owns the lot, the image is
  rendered and the writes are accepted, the answer is 200 and the stored lot has one
  more token, carrying the time of generation and the expiry (the clock read for it
  plus 24 hours), and one more audit entry tagged \<open>qr_generated\<close> whose metadata is the
  token value and the expiry; the rendered image is in the answer only, the \<open>qrCode\<close>
  field of the lot is untouched.
\<close>

theorem generateQr_owner_only:
  assumes auth: "authenticate env db req = Inr (uid, u)"
  shows "(role u \<noteq> Vendor \<longrightarrow>
            code (fst (generateQr env db req)) = 403 \<and> snd (generateQr env db req) = db)
       \<and> (\<forall>lot. role u = Vendor \<and> lots db (toUpperCase (lotIdParam req)) = Some lot \<longrightarrow>
            (vendorId lot \<noteq> uid \<longrightarrow>
               code (fst (generateQr env db req)) = 403 \<and> snd (generateQr env db req) = db)
          \<and> (vendorId lot = uid \<and> (\<forall>s. toDataURL env s \<noteq> None) \<and> lotSaveOk env \<and> userSaveOk env \<longrightarrow>
               (\<exists>lot' e.
                    code (fst (generateQr env db req)) = 200
                  \<and> lots (snd (generateQr env db req)) (toUpperCase (lotIdParam req)) = Some lot'
                  \<and> qrTokens lot' = qrTokens lot @
                       [\<lparr>token = take 8 (uuidv4 env), generatedAt = clock env 1,
                         expiresAt = clock env 0 + DAY_MS, generatedBy = uid\<rparr>]
                  \<and> auditTrail lot' = auditTrail lot @ [e]
                  \<and> action e = ''qr_generated''
                  \<and> actorId e = uid
                  \<and> metadata e = [(''qrToken'', JStr (take 8 (uuidv4 env))),
                                  (''expiresAt'', JStr (toISOString env (clock env 0 + DAY_MS)))]
                  \<and> qrCode lot' = qrCode lot)))"
proof -
  have usr: "users db uid = Some u" using auth by (rule authenticate_user)
  have denied: "role u \<noteq> Vendor \<Longrightarrow> generateQr env db req =
      (failure 403 (''Access denied. Required roles: '' @ join '', '' (map roleName [Vendor])
                  @ ''. Your role: '' @ roleName (role u) @ ''.''), db)"
    using auth by (simp add: generateQr_def authorize_def)
  have gate: "role u = Vendor \<Longrightarrow> generateQr env db req = generateQrHandler env db (uid, u) req"
    using auth by (simp add: generateQr_def authorize_def)
  show ?thesis
  proof (intro conjI impI allI)
    assume "role u \<noteq> Vendor"
    then show "code (fst (generateQr env db req)) = 403" by (simp add: denied failure_def)
  next
    assume "role u \<noteq> Vendor"
    then show "snd (generateQr env db req) = db" by (simp add: denied)
  next
    fix lot
    assume a: "role u = Vendor \<and> lots db (toUpperCase (lotIdParam req)) = Some lot"
      and b: "vendorId lot \<noteq> uid"
    then show "code (fst (generateQr env db req)) = 403"
      by (simp add: gate generateQrHandler_def failure_def)
  next
    fix lot
    assume a: "role u = Vendor \<and> lots db (toUpperCase (lotIdParam req)) = Some lot"
      and b: "vendorId lot \<noteq> uid"
    then show "snd (generateQr env db req) = db"
      by (simp add: gate generateQrHandler_def)
  next
    fix lot
    assume a: "role u = Vendor \<and> lots db (toUpperCase (lotIdParam req)) = Some lot"
      and b: "vendorId lot = uid \<and> (\<forall>s. toDataURL env s \<noteq> None) \<and> lotSaveOk env \<and> userSaveOk env"
    then show "\<exists>lot' e.
                    code (fst (generateQr env db req)) = 200
                  \<and> lots (snd (generateQr env db req)) (toUpperCase (lotIdParam req)) = Some lot'
                  \<and> qrTokens lot' = qrTokens lot @
                       [\<lparr>token = take 8 (uuidv4 env), generatedAt = clock env 1,
                         expiresAt = clock env 0 + DAY_MS, generatedBy = uid\<rparr>]
                  \<and> auditTrail lot' = auditTrail lot @ [e]
                  \<and> action e = ''qr_generated''
                  \<and> actorId e = uid
                  \<and> metadata e = [(''qrToken'', JStr (take 8 (uuidv4 env))),
                                  (''expiresAt'', JStr (toISOString env (clock env 0 + DAY_MS)))]
                  \<and> qrCode lot' = qrCode lot"
      using usr
      by (auto simp: gate generateQrHandler_def Let_def saveLot_def saveUser_def ok_def
          split: option.splits)
  qed
qed

theorem generateQr_owner_only_witness:
  "authenticate exampleEnv exampleDb (exampleReq ''D1'') = Inr (''D1'', exampleUser ''Depot'' DepotStaff)
   \<and> role (exampleUser ''Depot'' DepotStaff) \<noteq> Vendor
   \<and> code (fst (generateQr exampleEnv exampleDb (exampleReq ''D1''))) = 403
   \<and> snd (generateQr exampleEnv exampleDb (exampleReq ''D1'')) = exampleDb
   \<and> authenticate exampleEnv exampleDb (exampleReq ''V2'') = Inr (''V2'', exampleUser ''Other'' Vendor)
   \<and> role (exampleUser ''Other'' Vendor) = Vendor
   \<and> lots exampleDb (toUpperCase (lotIdParam (exampleReq ''V2''))) = Some exampleLot
   \<and> vendorId exampleLot = ''V1''
   \<and> code (fst (generateQr exampleEnv exampleDb (exampleReq ''V2''))) = 403
   \<and> snd (generateQr exampleEnv exampleDb (exampleReq ''V2'')) = exampleDb
   \<and> authenticate exampleEnv exampleDb (exampleReq ''V1'') = Inr (''V1'', exampleUser ''Vendor'' Vendor)
   \<and> lotSaveOk exampleEnv \<and> userSaveOk exampleEnv
   \<and> code (fst (generateQr exampleEnv exampleDb (exampleReq ''V1''))) = 200
   \<and> qrTokens (the (lots (snd (generateQr exampleEnv exampleDb (exampleReq ''V1''))) ''LOT001''))
        = [\<lparr>token = ''9b2f6c1e'', generatedAt = 1001, expiresAt = 86401000, generatedBy = ''V1''\<rparr>]
   \<and> map action (auditTrail (the (lots (snd (generateQr exampleEnv exampleDb (exampleReq ''V1''))) ''LOT001'')))
        = [''qr_generated'']
   \<and> map metadata (auditTrail (the (lots (snd (generateQr exampleEnv exampleDb (exampleReq ''V1''))) ''LOT001'')))
        = [[(''qrToken'', JStr ''9b2f6c1e''), (''expiresAt'', JStr ''T86401000'')]]
   \<and> qrCode (the (lots (snd (generateQr exampleEnv exampleDb (exampleReq ''V1''))) ''LOT001'')) = None"
proof -
  have aD: "authenticate exampleEnv exampleDb (exampleReq ''D1'') = Inr (''D1'', exampleUser ''Depot'' DepotStaff)"
    by (rule exampleAuth) (simp_all add: exampleReq_def exampleUsers)
  have aO: "authenticate exampleEnv exampleDb (exampleReq ''V2'') = Inr (''V2'', exampleUser ''Other'' Vendor)"
    by (rule exampleAuth) (simp_all add: exampleReq_def exampleUsers)
  have aV: "authenticate exampleEnv exampleDb (exampleReq ''V1'') = Inr (''V1'', exampleUser ''Vendor'' Vendor)"
    by (rule exampleAuth) (simp_all add: exampleReq_def exampleUsers)
  have rs: "role (exampleUser ''Depot'' DepotStaff) \<noteq> Vendor" "role (exampleUser ''Other'' Vendor) = Vendor"
    "role (exampleUser ''Vendor'' Vendor) = Vendor"
    by (simp_all add: exampleUser_def)
  have l: "lots exampleDb (toUpperCase (lotIdParam (exampleReq who))) = Some exampleLot"
    and k: "toUpperCase (lotIdParam (exampleReq who)) = ''LOT001''" for who
    by (simp_all add: exampleReq_def exampleKey exampleLots)
  have own: "vendorId exampleLot = ''V1''" "qrTokens exampleLot = []" "auditTrail exampleLot = []"
    "qrCode exampleLot = None"
    by (simp_all add: exampleLot_def)
  have s: "lotSaveOk exampleEnv" "userSaveOk exampleEnv" "\<forall>s. toDataURL exampleEnv s \<noteq> None"
    by (simp_all add: exampleEnv_def)
  have v: "take 8 (uuidv4 exampleEnv) = ''9b2f6c1e''" "clock exampleEnv (Suc 0) = 1001"
    "clock exampleEnv 0 + DAY_MS = 86401000" "toISOString exampleEnv 86401000 = ''T86401000''"
    by (simp_all add: exampleEnv_def DAY_MS_def intToString_def digitChar_def)
  from generateQr_owner_only [OF aD] rs
  have d: "code (fst (generateQr exampleEnv exampleDb (exampleReq ''D1''))) = 403
         \<and> snd (generateQr exampleEnv exampleDb (exampleReq ''D1'')) = exampleDb"
    by blast
  from generateQr_owner_only [OF aO] rs l [of "''V2''"] own
  have o: "code (fst (generateQr exampleEnv exampleDb (exampleReq ''V2''))) = 403
         \<and> snd (generateQr exampleEnv exampleDb (exampleReq ''V2'')) = exampleDb"
    by auto
  from generateQr_owner_only [OF aV] rs l [of "''V1''"] own s
  obtain lot' e where
    "code (fst (generateQr exampleEnv exampleDb (exampleReq ''V1''))) = 200"
    "lots (snd (generateQr exampleEnv exampleDb (exampleReq ''V1''))) ''LOT001'' = Some lot'"
    "qrTokens lot' = [\<lparr>token = ''9b2f6c1e'', generatedAt = 1001, expiresAt = 86401000, generatedBy = ''V1''\<rparr>]"
    "auditTrail lot' = [e]" "action e = ''qr_generated''"
    "metadata e = [(''qrToken'', JStr ''9b2f6c1e''), (''expiresAt'', JStr ''T86401000'')]"
    "qrCode lot' = None"
    by (auto simp: k v)
  with d o aD aO aV rs l [of "''V2''"] own s show ?thesis by simp
qed

text \<open>
  C6 (as amended).  Whatever the outcome of a request to generate-qr, every lot of the
  store is still there with its former token list as a prefix of the new one (entries
  and their timestamps untouched), and the check of any value carried by a former
  token gives the same verdict as before at every time: issuing never invalidates an
  earlier token.  When the request succeeded on this lot and the new value is not
  carried by a former token, the new token passes the check exactly up to its own
  expiry, the clock read at issuance plus 24 hours.  (Issuance does not test the new
  value against the former ones and the check takes the first entry with the presented
  value, so a new token whose value a former token already carries is judged by that
  former entry.)
\<close>

theorem generateQr_keeps_earlier_tokens:
  assumes "lots db k = Some lot"
  shows "\<exists>lot'. lots (snd (generateQr env db req)) k = Some lot'
           \<and> prefix (qrTokens lot) (qrTokens lot')
           \<and> (\<forall>q \<in> set (qrTokens lot). \<forall>now.
                 checkToken lot' (token q) now = checkToken lot (token q) now)
           \<and> (code (fst (generateQr env db req)) = 200 \<and> k = toUpperCase (lotIdParam req)
                \<and> take 8 (uuidv4 env) \<notin> token ` set (qrTokens lot) \<longrightarrow>
                (\<forall>now. checkToken lot' (take 8 (uuidv4 env)) now = None
                        \<longleftrightarrow> now \<le> clock env 0 + DAY_MS))"
proof -
  from tokensKept_generateQr [of db env req] assms
  obtain lot' where l: "lots (snd (generateQr env db req)) k = Some lot'"
    and p: "prefix (qrTokens lot) (qrTokens lot')"
    by (auto simp: tokensKept_def)
  from p have old: "\<forall>q \<in> set (qrTokens lot). \<forall>now.
                 checkToken lot' (token q) now = checkToken lot (token q) now"
    by (auto intro: checkToken_prefix)
  have new: "\<forall>now. checkToken lot' (take 8 (uuidv4 env)) now = None
                        \<longleftrightarrow> now \<le> clock env 0 + DAY_MS"
    if s: "code (fst (generateQr env db req)) = 200" and k: "k = toUpperCase (lotIdParam req)"
      and f: "take 8 (uuidv4 env) \<notin> token ` set (qrTokens lot)"
  proof -
    from generateQr_issued [OF s] assms k l obtain uid where
      q: "qrTokens lot' = qrTokens lot @
                [\<lparr>token = take 8 (uuidv4 env), generatedAt = clock env 1,
                  expiresAt = clock env 0 + DAY_MS, generatedBy = uid\<rparr>]"
      by auto
    show ?thesis using checkToken_fresh [OF f q] by simp
  qed
  from l p old new show ?thesis by blast
qed

theorem generateQr_keeps_earlier_tokens_witness:
  "lots issuedDb ''LOT001'' = Some issuedLot
   \<and> qrTokens issuedLot = [issuedToken]
   \<and> code (fst (generateQr (exampleEnv\<lparr>uuidv4 := ''c0ffee00-1111-4222-8333-444455556666''\<rparr>)
                  issuedDb (exampleReq ''V1''))) = 200
   \<and> prefix [issuedToken]
        (qrTokens (the (lots (snd (generateQr (exampleEnv\<lparr>uuidv4 := ''c0ffee00-1111-4222-8333-444455556666''\<rparr>)
                                     issuedDb (exampleReq ''V1''))) ''LOT001'')))
   \<and> checkToken (the (lots (snd (generateQr (exampleEnv\<lparr>uuidv4 := ''c0ffee00-1111-4222-8333-444455556666''\<rparr>)
                                     issuedDb (exampleReq ''V1''))) ''LOT001'')) ''9b2f6c1e'' 5000
        = checkToken issuedLot ''9b2f6c1e'' 5000
   \<and> checkToken issuedLot ''9b2f6c1e'' 5000 = None
   \<and> checkToken (the (lots (snd (generateQr (exampleEnv\<lparr>uuidv4 := ''c0ffee00-1111-4222-8333-444455556666''\<rparr>)
                                     issuedDb (exampleReq ''V1''))) ''LOT001'')) ''c0ffee00'' 86401000
        = None"
proof -
  let ?env = "exampleEnv\<lparr>uuidv4 := ''c0ffee00-1111-4222-8333-444455556666''\<rparr>"
  have ts: "qrTokens issuedLot = [issuedToken]" by (simp add: issuedLot_def)
  have t: "token issuedToken = ''9b2f6c1e''" by (simp add: issuedToken_def)
  have aV: "authenticate ?env issuedDb (exampleReq ''V1'') = Inr (''V1'', the (users issuedDb ''V1''))"
    by (simp add: authenticate_def truthy_def exampleEnv_def exampleReq_def issuedDb_eq)
  have c: "code (fst (generateQr ?env issuedDb (exampleReq ''V1''))) = 200"
    by (simp add: generateQr_def aV generateQrHandler_def issuedDb_eq example_defs route_defs)
  have k: "''LOT001'' = toUpperCase (lotIdParam (exampleReq ''V1''))"
    by (simp add: exampleReq_def exampleKey)
  have fresh: "take 8 (uuidv4 ?env) \<notin> token ` set (qrTokens issuedLot)"
    by (simp add: ts t)
  have v: "take 8 (uuidv4 ?env) = ''c0ffee00''" "clock exampleEnv 0 + DAY_MS = 86401000"
    by (simp_all add: exampleEnv_def DAY_MS_def)
  have old: "checkToken issuedLot ''9b2f6c1e'' 5000 = None"
    by (simp add: checkToken_def ts) (simp add: issuedToken_def)
  from generateQr_keeps_earlier_tokens [OF issuedDb_lot, of ?env "exampleReq ''V1''"]
  obtain lot' where
    l: "lots (snd (generateQr ?env issuedDb (exampleReq ''V1''))) ''LOT001'' = Some lot'"
    and p: "prefix (qrTokens issuedLot) (qrTokens lot')"
    and o: "\<forall>q \<in> set (qrTokens issuedLot). \<forall>now.
                 checkToken lot' (token q) now = checkToken issuedLot (token q) now"
    and n: "code (fst (generateQr ?env issuedDb (exampleReq ''V1''))) = 200
              \<and> ''LOT001'' = toUpperCase (lotIdParam (exampleReq ''V1''))
              \<and> take 8 (uuidv4 ?env) \<notin> token ` set (qrTokens issuedLot) \<longrightarrow>
              (\<forall>now. checkToken lot' (take 8 (uuidv4 ?env)) now = None
                        \<longleftrightarrow> now \<le> clock ?env 0 + DAY_MS)"
    by blast
  from o have o': "checkToken lot' ''9b2f6c1e'' 5000 = checkToken issuedLot ''9b2f6c1e'' 5000"
    by (simp add: ts t)
  from n c k fresh have "checkToken lot' (take 8 (uuidv4 ?env)) 86401000 = None
                        \<longleftrightarrow> (86401000::int) \<le> clock ?env 0 + DAY_MS"
    by blast
  then have n': "checkToken lot' ''c0ffee00'' 86401000 = None" by (simp add: v)
  from issuedDb_lot ts c l p o' old n' show ?thesis by simp
qed

theorem issue_colliding_token_counterexample:
  "lots issuedDb ''LOT001'' = Some issuedLot
   \<and> qrTokens issuedLot = [issuedToken]
   \<and> token issuedToken = ''9b2f6c1e''
   \<and> expiresAt issuedToken = 86401000
   \<and> take 8 (uuidv4 laterEnv) = ''9b2f6c1e''
   \<and> code (fst (generateQr laterEnv issuedDb (exampleReq ''V1''))) = 200
   \<and> snd (generateQr laterEnv issuedDb (exampleReq ''V1'')) = collidedDb
   \<and> map_option qrTokens (lots collidedDb ''LOT001'')
        = Some [issuedToken,
                \<lparr>token = ''9b2f6c1e'', generatedAt = 2001, expiresAt = 86402000,
                 generatedBy = ''V1''\<rparr>]
   \<and> clock (envAt 86401500) 0 = 86401500
   \<and> fst (getLot (envAt 86401500) collidedDb (tokenReq ''9b2f6c1e''))
        = failure 401 ''QR token has expired''"
proof -
  have au: "authenticate laterEnv issuedDb (exampleReq ''V1'') = Inr (''V1'', the (users issuedDb ''V1''))"
    by (simp add: authenticate_def truthy_def laterEnv_def exampleEnv_def exampleReq_def issuedDb_eq)
  have g: "generateQr laterEnv issuedDb (exampleReq ''V1'')
             = generateQrHandler laterEnv issuedDb (''V1'', the (users issuedDb ''V1'')) (exampleReq ''V1'')"
    by (simp add: generateQr_def au authorize_def) (simp add: issuedDb_eq exampleUser_def)
  have c: "code (fst (generateQr laterEnv issuedDb (exampleReq ''V1''))) = 200"
    unfolding g
    by (simp add: generateQrHandler_def issuedDb_eq laterEnv_def example_defs route_defs)
  have l: "map_option qrTokens (lots collidedDb ''LOT001'')
        = Some [issuedToken,
                \<lparr>token = ''9b2f6c1e'', generatedAt = 2001, expiresAt = 86402000,
                 generatedBy = ''V1''\<rparr>]"
    unfolding collidedDb_def g
    by (simp add: generateQrHandler_def issuedDb_eq laterEnv_def example_defs route_defs)
  then obtain lot2 where l2: "lots collidedDb ''LOT001'' = Some lot2"
    and t2: "qrTokens lot2 = [issuedToken,
                \<lparr>token = ''9b2f6c1e'', generatedAt = 2001, expiresAt = 86402000,
                 generatedBy = ''V1''\<rparr>]"
    by auto
  have ud: "users collidedDb ''D1'' = Some (exampleUser ''Depot'' DepotStaff)"
    unfolding collidedDb_def g
    by (simp add: generateQrHandler_def issuedDb_eq laterEnv_def example_defs route_defs)
  have ad: "authenticate (envAt 86401500) collidedDb (tokenReq ''9b2f6c1e'')
              = Inr (''D1'', exampleUser ''Depot'' DepotStaff)"
    by (simp add: authenticate_def truthy_def ud envAt_def exampleEnv_def tokenReq_def
        exampleReq_def)
  have r: "fst (getLot (envAt 86401500) collidedDb (tokenReq ''9b2f6c1e''))
        = failure 401 ''QR token has expired''"
    by (simp add: getLot_def ad getLotHandler_def Let_def checkToken_def)
       (simp add: tokenReq_def exampleReq_def exampleKey l2 t2 truthy_def issuedToken_def
          envAt_def checkToken_def)
  show ?thesis
    using c l r issuedDb_lot
    by (simp add: issuedLot_def issuedToken_def laterEnv_def exampleEnv_def envAt_def
        collidedDb_def)
qed

section \<open>Validation does not write\<close>



section \<open>Requesting a replacement\<close>

text \<open>
  C8 (as amended).  POST /:lotId/replacement-request by an authenticated track-worker
  or inspector.  When \<open>reason\<close> or \<open>description\<close> is absent or empty the answer is 400
  "Reason and description are required" and the store is unchanged.  Otherwise, on an
  existing lot: when the reason is one of defective, damaged, worn, expired,
  incorrect_spec, other, the description is not blank once trimmed, the priority
  (medium when absent) is one of low, medium, high, urgent, the generated identifier is
  not yet in use and the writes are accepted, the answer is 201, a request with status
  pending is stored under the generated identifier, tied to the lot, the requester and
  the requester's role, and the trail of the lot gains one entry tagged
  \<open>replacement_requested\<close> whose metadata holds that identifier as \<open>requestId\<close>.  When
  the reason or the priority is outside its vocabulary, or the description is blank
  once trimmed, the schema rejects the document: the request fails, nothing is
  created and nothing is appended (the store is unchanged).  The trimming is that of
  \<open>String.prototype.trim\<close>, whatever it removes.
\<close>

theorem replacementRequest_creates_pending_request:
  assumes auth: "authenticate env db req = Inr (uid, u)"
    and rl: "role u \<in> {TrackWorker, Inspector}"
  shows "(\<not> truthy (body_reason req) \<or> \<not> truthy (body_description req) \<longrightarrow>
            fst (replacementRequest env db req) = failure 400 ''Reason and description are required''
          \<and> snd (replacementRequest env db req) = db)
       \<and> (\<forall>lot r d. body_reason req = Some r \<and> r \<noteq> [] \<and> body_description req = Some d \<and> d \<noteq> []
             \<and> lots db (toUpperCase (lotIdParam req)) = Some lot \<longrightarrow>
            (r \<in> set reasons \<and> stringTrim env d \<noteq> []
               \<and> (case body_priority req of None \<Rightarrow> ''medium'' | Some p \<Rightarrow> p) \<in> set priorities
               \<and> uid \<noteq> [] \<and> lotIdParam req \<noteq> []
               \<and> requests db (toUpperCase (generateReplacementRequestId env 0)) = None
               \<and> requestSaveOk env \<and> lotSaveOk env \<and> userSaveOk env \<longrightarrow>
               (\<exists>rr lot' e.
                    code (fst (replacementRequest env db req)) = 201
                  \<and> requests (snd (replacementRequest env db req))
                       (toUpperCase (generateReplacementRequestId env 0)) = Some rr
                  \<and> status_rr rr = ''pending''
                  \<and> lotId rr = toUpperCase (lotIdParam req)
                  \<and> requestedBy rr = uid
                  \<and> requestedByRole rr = role u
                  \<and> lots (snd (replacementRequest env db req)) (toUpperCase (lotIdParam req)) = Some lot'
                  \<and> auditTrail lot' = auditTrail lot @ [e]
                  \<and> action e = ''replacement_requested''
                  \<and> map_of (metadata e) ''requestId''
                       = Some (JStr (toUpperCase (generateReplacementRequestId env 0)))))
          \<and> (r \<notin> set reasons \<or> stringTrim env d = []
               \<or> (case body_priority req of None \<Rightarrow> ''medium'' | Some p \<Rightarrow> p) \<notin> set priorities \<longrightarrow>
               \<not> success (fst (replacementRequest env db req))
             \<and> snd (replacementRequest env db req) = db))"
proof -
  have usr: "users db uid = Some u" using auth by (rule authenticate_user)
  note g = replacementRequest_gate [OF auth rl]
  show ?thesis
  proof (intro conjI impI allI)
    assume "\<not> truthy (body_reason req) \<or> \<not> truthy (body_description req)"
    then show "fst (replacementRequest env db req) = failure 400 ''Reason and description are required''"
      by (auto simp: g replacementRequestHandler_def)
  next
    assume "\<not> truthy (body_reason req) \<or> \<not> truthy (body_description req)"
    then show "snd (replacementRequest env db req) = db"
      by (auto simp: g replacementRequestHandler_def)
  next
    fix lot r d
    assume a: "body_reason req = Some r \<and> r \<noteq> [] \<and> body_description req = Some d \<and> d \<noteq> []
             \<and> lots db (toUpperCase (lotIdParam req)) = Some lot"
      and b: "r \<in> set reasons \<and> stringTrim env d \<noteq> []
               \<and> (case body_priority req of None \<Rightarrow> ''medium'' | Some p \<Rightarrow> p) \<in> set priorities
               \<and> uid \<noteq> [] \<and> lotIdParam req \<noteq> []
               \<and> requests db (toUpperCase (generateReplacementRequestId env 0)) = None
               \<and> requestSaveOk env \<and> lotSaveOk env \<and> userSaveOk env"
    have v: "validRequest (toUpperCase (generateReplacementRequestId env 0))
               \<lparr>lotId = toUpperCase (lotIdParam req), partId = None, requestedBy = uid,
                requestedByRole = role u, reason = r, description = stringTrim env d,
                photos = photosOrEmpty (body_photos req), status_rr = ''pending'',
                reviewedBy = None, reviewedAt = None, reviewNotes = None,
                priority = (case body_priority req of None \<Rightarrow> ''medium'' | Some p \<Rightarrow> p),
                createdAt_rr = None, updatedAt_rr = None\<rparr>"
      using a b rl
      by (auto simp: validRequest_def requestId_nonempty toUpperCase_nonempty requestStatuses_def)
    show "\<exists>rr lot' e.
                    code (fst (replacementRequest env db req)) = 201
                  \<and> requests (snd (replacementRequest env db req))
                       (toUpperCase (generateReplacementRequestId env 0)) = Some rr
                  \<and> status_rr rr = ''pending''
                  \<and> lotId rr = toUpperCase (lotIdParam req)
                  \<and> requestedBy rr = uid
                  \<and> requestedByRole rr = role u
                  \<and> lots (snd (replacementRequest env db req)) (toUpperCase (lotIdParam req)) = Some lot'
                  \<and> auditTrail lot' = auditTrail lot @ [e]
                  \<and> action e = ''replacement_requested''
                  \<and> map_of (metadata e) ''requestId''
                       = Some (JStr (toUpperCase (generateReplacementRequestId env 0)))"
      using a b usr v
      by (simp add: g replacementRequestHandler_def Let_def truthy_def saveRequest_def
          saveLot_def saveUser_def ok_def)
  next
    fix lot r d
    assume a: "body_reason req = Some r \<and> r \<noteq> [] \<and> body_description req = Some d \<and> d \<noteq> []
             \<and> lots db (toUpperCase (lotIdParam req)) = Some lot"
      and b: "r \<notin> set reasons \<or> stringTrim env d = []
               \<or> (case body_priority req of None \<Rightarrow> ''medium'' | Some p \<Rightarrow> p) \<notin> set priorities"
    then have nv: "\<not> validRequest (toUpperCase (generateReplacementRequestId env 0))
               \<lparr>lotId = toUpperCase (lotIdParam req), partId = None, requestedBy = uid,
                requestedByRole = role u, reason = r, description = stringTrim env d,
                photos = photosOrEmpty (body_photos req), status_rr = ''pending'',
                reviewedBy = None, reviewedAt = None, reviewNotes = None,
                priority = (case body_priority req of None \<Rightarrow> ''medium'' | Some p \<Rightarrow> p),
                createdAt_rr = None, updatedAt_rr = None\<rparr>"
      by (auto simp: validRequest_def)
    from a nv show "\<not> success (fst (replacementRequest env db req))"
      by (simp add: g replacementRequestHandler_def Let_def truthy_def saveRequest_def failure_def)
    from a nv show "snd (replacementRequest env db req) = db"
      by (simp add: g replacementRequestHandler_def Let_def truthy_def saveRequest_def)
  qed
qed

theorem replacementRequest_creates_pending_request_witness:
  "authenticate exampleEnv exampleDb (replaceReq ''defective'' ''cracked'')
      = Inr (''I1'', exampleUser ''Inspector'' Inspector)
   \<and> role (exampleUser ''Inspector'' Inspector) \<in> {TrackWorker, Inspector}
   \<and> body_reason (replaceReq ''defective'' ''cracked'') = Some ''defective''
   \<and> body_description (replaceReq ''defective'' ''cracked'') = Some ''cracked''
   \<and> lots exampleDb (toUpperCase (lotIdParam (replaceReq ''defective'' ''cracked''))) = Some exampleLot
   \<and> ''defective'' \<in> set reasons \<and> stringTrim exampleEnv ''cracked'' \<noteq> []
   \<and> body_priority (replaceReq ''defective'' ''cracked'') = None
   \<and> ''medium'' \<in> set priorities
   \<and> toUpperCase (generateReplacementRequestId exampleEnv 0) = ''REQ1000''
   \<and> requests exampleDb ''REQ1000'' = None
   \<and> requestSaveOk exampleEnv \<and> lotSaveOk exampleEnv \<and> userSaveOk exampleEnv
   \<and> code (fst (replacementRequest exampleEnv exampleDb (replaceReq ''defective'' ''cracked''))) = 201
   \<and> map_option status_rr (requests (snd (replacementRequest exampleEnv exampleDb
                                (replaceReq ''defective'' ''cracked''))) ''REQ1000'') = Some ''pending''
   \<and> map_option lotId (requests (snd (replacementRequest exampleEnv exampleDb
                                (replaceReq ''defective'' ''cracked''))) ''REQ1000'') = Some ''LOT001''
   \<and> map action (auditTrail (the (lots (snd (replacementRequest exampleEnv exampleDb
                                (replaceReq ''defective'' ''cracked''))) ''LOT001'')))
        = [''replacement_requested'']
   \<and> map_of (metadata (last (auditTrail (the (lots (snd (replacementRequest exampleEnv exampleDb
                                (replaceReq ''defective'' ''cracked''))) ''LOT001''))))) ''requestId''
        = Some (JStr ''REQ1000'')
   \<and> \<not> truthy (body_description (exampleReq ''I1''))
   \<and> fst (replacementRequest exampleEnv exampleDb (exampleReq ''I1''))
        = failure 400 ''Reason and description are required''
   \<and> snd (replacementRequest exampleEnv exampleDb (exampleReq ''I1'')) = exampleDb
   \<and> stringTrim exampleEnv '' '' = []
   \<and> \<not> success (fst (replacementRequest exampleEnv exampleDb (replaceReq ''defective'' '' '')))
   \<and> snd (replacementRequest exampleEnv exampleDb (replaceReq ''defective'' '' '')) = exampleDb
   \<and> stringTrim exampleEnv [CHR 0xC2, CHR 0xA0] = []
   \<and> \<not> success (fst (replacementRequest exampleEnv exampleDb
                           (replaceReq ''defective'' [CHR 0xC2, CHR 0xA0])))
   \<and> snd (replacementRequest exampleEnv exampleDb (replaceReq ''defective'' [CHR 0xC2, CHR 0xA0]))
        = exampleDb"
proof -
  have au: "authenticate exampleEnv exampleDb (replaceReq r d) = Inr (''I1'', exampleUser ''Inspector'' Inspector)"
    for r d
    by (rule exampleAuth) (simp_all add: replaceReq_def exampleReq_def exampleUsers)
  have au0: "authenticate exampleEnv exampleDb (exampleReq ''I1'') = Inr (''I1'', exampleUser ''Inspector'' Inspector)"
    by (rule exampleAuth) (simp_all add: exampleReq_def exampleUsers)
  have rl: "role (exampleUser ''Inspector'' Inspector) \<in> {TrackWorker, Inspector}"
    by (simp add: exampleUser_def)
  have b: "body_reason (replaceReq r d) = Some r" "body_description (replaceReq r d) = Some d"
    "body_priority (replaceReq r d) = None" "lotIdParam (replaceReq r d) = ''lot001''"
    "lots exampleDb (toUpperCase (lotIdParam (replaceReq r d))) = Some exampleLot" for r d
    by (simp_all add: replaceReq_def exampleReq_def exampleKey exampleLots)
  have v: "''defective'' \<in> set reasons" "stringTrim exampleEnv ''cracked'' \<noteq> []"
    "''medium'' \<in> set priorities"
    "stringTrim exampleEnv '' '' = []" "stringTrim exampleEnv [CHR 0xC2, CHR 0xA0] = []"
    by (simp_all add: reasons_def priorities_def exampleEnv_def trim_examples)
  have ne: "[CHR 0xC2, CHR 0xA0] \<noteq> ([] :: string)" "'' '' \<noteq> ([] :: string)"
    "''defective'' \<noteq> ([] :: string)"
    by simp_all
  have rid: "toUpperCase (generateReplacementRequestId exampleEnv 0) = ''REQ1000''"
    by (simp add: generateReplacementRequestId_def exampleEnv_def intToString_def digitChar_def
        toUpperCase_def upperChar_def)
  have fr: "requests exampleDb ''REQ1000'' = None" by (simp add: exampleDb_def)
  have s: "requestSaveOk exampleEnv" "lotSaveOk exampleEnv" "userSaveOk exampleEnv"
    by (simp_all add: exampleEnv_def)
  have t0: "\<not> truthy (body_description (exampleReq ''I1''))"
    by (simp add: truthy_def exampleReq_def)
  have e: "auditTrail exampleLot = []" by (simp add: exampleLot_def)
  from replacementRequest_creates_pending_request [OF au [of "''defective''" "''cracked''"] rl]
    b [of "''defective''" "''cracked''"] v rid fr s
  obtain rr lot' en where
    "code (fst (replacementRequest exampleEnv exampleDb (replaceReq ''defective'' ''cracked''))) = 201"
    "requests (snd (replacementRequest exampleEnv exampleDb (replaceReq ''defective'' ''cracked''))) ''REQ1000'' = Some rr"
    "status_rr rr = ''pending''" "lotId rr = ''LOT001''"
    "lots (snd (replacementRequest exampleEnv exampleDb (replaceReq ''defective'' ''cracked''))) ''LOT001'' = Some lot'"
    "auditTrail lot' = [en]" "action en = ''replacement_requested''"
    "map_of (metadata en) ''requestId'' = Some (JStr ''REQ1000'')"
    by (auto simp: exampleKey e)
  moreover
  from replacementRequest_creates_pending_request [OF au0 rl] t0
  have "fst (replacementRequest exampleEnv exampleDb (exampleReq ''I1''))
        = failure 400 ''Reason and description are required''
      \<and> snd (replacementRequest exampleEnv exampleDb (exampleReq ''I1'')) = exampleDb"
    by blast
  moreover
  from replacementRequest_creates_pending_request [OF au [of "''defective''" "'' ''"] rl]
    b [of "''defective''" "'' ''"] v
  have "\<not> success (fst (replacementRequest exampleEnv exampleDb (replaceReq ''defective'' '' '')))
      \<and> snd (replacementRequest exampleEnv exampleDb (replaceReq ''defective'' '' '')) = exampleDb"
    by auto
  moreover
  from replacementRequest_creates_pending_request
         [OF au [of "''defective''" "[CHR 0xC2, CHR 0xA0]"] rl]
    b [of "''defective''" "[CHR 0xC2, CHR 0xA0]"] v ne
  have "\<not> success (fst (replacementRequest exampleEnv exampleDb
                          (replaceReq ''defective'' [CHR 0xC2, CHR 0xA0])))
      \<and> snd (replacementRequest exampleEnv exampleDb (replaceReq ''defective'' [CHR 0xC2, CHR 0xA0]))
           = exampleDb"
    by blast
  ultimately show ?thesis
    using au [of "''defective''" "''cracked''"] rl b [of "''defective''" "''cracked''"] v rid fr s t0
    by simp
qed

theorem replacementRequest_schema_counterexample:
  "body_reason (replaceReq ''defective'' '' '') = Some ''defective''
   \<and> body_description (replaceReq ''defective'' '' '') = Some '' ''
   \<and> truthy (body_reason (replaceReq ''defective'' '' ''))
   \<and> truthy (body_description (replaceReq ''defective'' '' ''))
   \<and> fst (replacementRequest exampleEnv exampleDb (replaceReq ''defective'' '' ''))
        = failure 500 ''Server error creating replacement request''
   \<and> snd (replacementRequest exampleEnv exampleDb (replaceReq ''defective'' '' '')) = exampleDb
   \<and> truthy (body_reason (replaceReq ''broken'' ''cracked''))
   \<and> truthy (body_description (replaceReq ''broken'' ''cracked''))
   \<and> fst (replacementRequest exampleEnv exampleDb (replaceReq ''broken'' ''cracked''))
        = failure 500 ''Server error creating replacement request''
   \<and> snd (replacementRequest exampleEnv exampleDb (replaceReq ''broken'' ''cracked'')) = exampleDb"
  by (simp add: replacementRequest_def replacementRequestHandler_def saveRequest_def
      validRequest_def reasons_def priorities_def requestStatuses_def trim_examples
      generateReplacementRequestId_def intToString_def digitChar_def
      example_defs route_defs)

section \<open>The audit trail is append-only\<close>

text \<open>
  C9.  After any sequence of requests to the five operations (generate-qr, status,
  install, inspection, replacement-request), under any environments and whatever the
  outcome of each, every lot of the store is still there and its former audit trail is a
  prefix of its new one: entries are only added at the tail, none is changed, removed
  or moved.
\<close>

theorem auditTrail_append_only:
  assumes "lots db k = Some lot"
  shows "\<exists>lot'. lots (performAll ops db) k = Some lot'
           \<and> prefix (auditTrail lot) (auditTrail lot')"
  using trailKept_performAll [of db ops] assms by (auto simp: trailKept_def)

lemma exampleOps_actions:
  "map_option (map action \<circ> auditTrail) (lots (performAll exampleOps issuedDb) ''LOT001'')
     = Some [''qr_generated'', ''status_updated'', ''installation_recorded'',
             ''inspection_recorded'', ''replacement_requested'']"
  by (simp add: exampleOps_def issuedDb_eq
      updateStatus_def updateStatusHandler_def lotStatuses_def
      install_def installHandler_def installationDateOr_def
      inspection_def inspectionHandler_def conditions_def
      replacementRequest_def replacementRequestHandler_def saveRequest_def
      validRequest_def reasons_def priorities_def requestStatuses_def trim_examples
      generateReplacementRequestId_def intToString_def digitChar_def
      example_defs route_defs)

theorem auditTrail_append_only_witness:
  "lots issuedDb ''LOT001'' = Some issuedLot
   \<and> map action (auditTrail issuedLot) = [''qr_generated'']
   \<and> prefix (auditTrail issuedLot) (auditTrail (the (lots (performAll exampleOps issuedDb) ''LOT001'')))
   \<and> map action (auditTrail (the (lots (performAll exampleOps issuedDb) ''LOT001'')))
        = [''qr_generated'', ''status_updated'', ''installation_recorded'',
           ''inspection_recorded'', ''replacement_requested'']"
proof -
  from auditTrail_append_only [OF issuedDb_lot, of exampleOps]
  obtain lot' where l: "lots (performAll exampleOps issuedDb) ''LOT001'' = Some lot'"
    and p: "prefix (auditTrail issuedLot) (auditTrail lot')"
    by blast
  have a: "map action (auditTrail issuedLot) = [''qr_generated'']" by (simp add: issuedLot_def)
  from exampleOps_actions l
  have b: "map action (auditTrail lot')
        = [''qr_generated'', ''status_updated'', ''installation_recorded'',
           ''inspection_recorded'', ''replacement_requested'']"
    by simp
  from issuedDb_lot a l p b show ?thesis by simp
qed

section \<open>The mirror of a status transition in the user's history\<close>

text \<open>
  C10.  After a successful status transition by a depot-staff actor, the history of
  that user has one more entry, tagged \<open>update_lot_status\<close>, whose metadata holds the new
  status both as \<open>newStatus\<close> and as \<open>previousStatus\<close> (the entry is built after the
  status of the lot has been overwritten), whereas the \<open>status_updated\<close> entry of the
  lot holds the prior status as \<open>previousStatus\<close>; so whenever the status really
  changes, the two \<open>previousStatus\<close> values disagree.
\<close>

theorem updateStatus_history_previousStatus:
  assumes auth: "authenticate env db req = Inr (uid, u)" and dep: "role u = DepotStaff"
    and lot: "lots db (toUpperCase (lotIdParam req)) = Some lot"
    and saves: "lotSaveOk env" "userSaveOk env"
    and st: "body_status req = Some s" "s \<in> set lotStatuses"
  shows "\<exists>user' h lot' e.
           users (snd (updateStatus env db req)) uid = Some user'
         \<and> history user' = history u @ [h]
         \<and> action_h h = ''update_lot_status''
         \<and> map_of (metadata_h h) ''previousStatus'' = Some (JStr s)
         \<and> map_of (metadata_h h) ''newStatus'' = Some (JStr s)
         \<and> lots (snd (updateStatus env db req)) (toUpperCase (lotIdParam req)) = Some lot'
         \<and> auditTrail lot' = auditTrail lot @ [e]
         \<and> map_of (metadata e) ''previousStatus'' = Some (JStr (status lot))
         \<and> (status lot \<noteq> s \<longrightarrow>
              map_of (metadata_h h) ''previousStatus'' \<noteq> map_of (metadata e) ''previousStatus'')"
proof -
  have usr: "users db uid = Some u" using auth by (rule authenticate_user)
  have gate: "updateStatus env db req = updateStatusHandler env db (uid, u) req"
    using auth dep by (simp add: updateStatus_def authorize_def)
  show ?thesis
    unfolding gate using usr lot saves st
    by (auto simp: updateStatusHandler_def Let_def saveLot_def saveUser_def ok_def)
qed

theorem updateStatus_history_previousStatus_witness:
  "authenticate exampleEnv exampleDb acceptReq = Inr (''D1'', exampleUser ''Depot'' DepotStaff)
   \<and> role (exampleUser ''Depot'' DepotStaff) = DepotStaff
   \<and> lots exampleDb (toUpperCase (lotIdParam acceptReq)) = Some exampleLot
   \<and> lotSaveOk exampleEnv \<and> userSaveOk exampleEnv
   \<and> body_status acceptReq = Some ''accepted''
   \<and> ''accepted'' \<in> set lotStatuses
   \<and> status exampleLot = ''pending''
   \<and> map_of (metadata_h (last (history (the (users (snd (updateStatus exampleEnv exampleDb acceptReq)) ''D1'')))))
        ''previousStatus'' = Some (JStr ''accepted'')
   \<and> map_of (metadata (last (auditTrail (the (lots (snd (updateStatus exampleEnv exampleDb acceptReq)) ''LOT001'')))))
        ''previousStatus'' = Some (JStr ''pending'')"
proof -
  have a1: "authenticate exampleEnv exampleDb acceptReq = Inr (''D1'', exampleUser ''Depot'' DepotStaff)"
    by (rule exampleAuth) (simp_all add: acceptReq_def exampleReq_def exampleUsers)
  have r: "role (exampleUser ''Depot'' DepotStaff) = DepotStaff" by (simp add: exampleUser_def)
  have l1: "lots exampleDb (toUpperCase (lotIdParam acceptReq)) = Some exampleLot"
    by (simp add: acceptReq_def exampleReq_def exampleKey exampleLots)
  have s: "lotSaveOk exampleEnv" "userSaveOk exampleEnv" by (simp_all add: exampleEnv_def)
  have b1: "body_status acceptReq = Some ''accepted''"
    and k: "toUpperCase (lotIdParam acceptReq) = ''LOT001''"
    by (simp_all add: acceptReq_def exampleReq_def exampleKey)
  have m1: "''accepted'' \<in> set lotStatuses" by (simp add: lotStatuses_def)
  have p: "status exampleLot = ''pending''" by (simp add: exampleLot_def)
  from updateStatus_history_previousStatus [OF a1 r l1 s b1 m1]
  obtain user' h lot' e where
    "users (snd (updateStatus exampleEnv exampleDb acceptReq)) ''D1'' = Some user'"
    "history user' = history (exampleUser ''Depot'' DepotStaff) @ [h]"
    "map_of (metadata_h h) ''previousStatus'' = Some (JStr ''accepted'')"
    "lots (snd (updateStatus exampleEnv exampleDb acceptReq)) ''LOT001'' = Some lot'"
    "auditTrail lot' = auditTrail exampleLot @ [e]"
    "map_of (metadata e) ''previousStatus'' = Some (JStr ''pending'')"
    by (auto simp: k p)
  then show ?thesis using a1 r l1 s b1 m1 p by simp
qed

end
